theory Spec2Isabelle
  imports Main
begin

section \<open>Python values\<close>

text \<open>
  The helper class \<open>GitHubHelper\<close> of \<open>obsbot/cogs/public/utils/github.py\<close> works on
  values decoded from JSON. A decoded value is modelled by \<open>json\<close>; \<open>JNull\<close> is Python's
  \<open>None\<close>. A dict is an association list with distinct keys, in insertion order.
  A Python \<open>str\<close> is a \<open>string\<close> holding its UTF-8 bytes. Numbers are integers (ids,
  counters, seconds).
\<close>

datatype json =
    JNull
  | JBool bool
  | JNum int
  | JStr string
  | JList "json list"
  | JDict "(string \<times> json) list"

text \<open>The exceptions the code can raise by itself; a raise is the value \<open>Inl\<close>.\<close>

datatype error = KeyError | TypeError | IndexError | AttributeError | ValueError | NotModelled

type_synonym 'a res = "error + 'a"

definition bind :: "'a res \<Rightarrow> ('a \<Rightarrow> 'b res) \<Rightarrow> 'b res" where
  "bind m f = (case m of Inl e \<Rightarrow> Inl e | Inr x \<Rightarrow> f x)"

text \<open>Truth value of a Python object, as \<open>if x:\<close> and \<open>not x\<close> test it.\<close>

fun truthy :: "json \<Rightarrow> bool" where
  "truthy JNull = False"
| "truthy (JBool b) = b"
| "truthy (JNum n) = (n \<noteq> 0)"
| "truthy (JStr s) = (s \<noteq> [])"
| "truthy (JList xs) = (xs \<noteq> [])"
| "truthy (JDict d) = (d \<noteq> [])"

text \<open>\<open>x[key]\<close> with a string key: only a dict can be subscripted by a string.\<close>

fun getitem :: "json \<Rightarrow> string \<Rightarrow> json res" where
  "getitem (JDict d) k = (case map_of d k of None \<Rightarrow> Inl KeyError | Some v \<Rightarrow> Inr v)"
| "getitem _ k = Inl TypeError"

text \<open>\<open>x.get(key, default)\<close>: a method of dicts only.\<close>

fun dict_get :: "json \<Rightarrow> string \<Rightarrow> json \<Rightarrow> json res" where
  "dict_get (JDict d) k dflt = (case map_of d k of None \<Rightarrow> Inr dflt | Some v \<Rightarrow> Inr v)"
| "dict_get _ k dflt = Inl AttributeError"

text \<open>\<open>d[key] = v\<close> on a dict: an existing key keeps its place, a new one goes last.\<close>

fun dict_set :: "string \<Rightarrow> json \<Rightarrow> (string \<times> json) list \<Rightarrow> (string \<times> json) list" where
  "dict_set k v [] = [(k, v)]"
| "dict_set k v (p # ps) = (if fst p = k then (k, v) # ps else p # dict_set k v ps)"

section \<open>Python string operations\<close>

text \<open>\<open>sep.join(parts)\<close>.\<close>

fun join :: "string \<Rightarrow> string list \<Rightarrow> string" where
  "join sep [] = []"
| "join sep [x] = x"
| "join sep (x # y # ys) = x @ sep @ join sep (y # ys)"

text \<open>\<open>s.startswith(p)\<close>.\<close>

definition startswith :: "string \<Rightarrow> string \<Rightarrow> bool" where
  "startswith s p = (take (length p) s = p)"

text \<open>\<open>sub in s\<close> for two strings.\<close>

fun contains :: "string \<Rightarrow> string \<Rightarrow> bool" where
  "contains sub [] = (sub = [])"
| "contains sub (c # cs) = (startswith (c # cs) sub \<or> contains sub cs)"

text \<open>\<open>s.split(c)\<close> for a one-character separator: at least one piece.\<close>

fun split :: "char \<Rightarrow> string \<Rightarrow> string list" where
  "split sep [] = [[]]"
| "split sep (c # cs) =
     (if c = sep then [] # split sep cs
      else (case split sep cs of [] \<Rightarrow> [[c]] | p # ps \<Rightarrow> (c # p) # ps))"

text \<open>\<open>s.rpartition(c)[2]\<close>: what follows the last separator, or all of \<open>s\<close>.\<close>

definition rpartition_tail :: "char \<Rightarrow> string \<Rightarrow> string" where
  "rpartition_tail sep s = rev (takeWhile (\<lambda>c. c \<noteq> sep) (rev s))"

text \<open>
  \<open>s.splitlines()\<close>. Line boundaries are \<open>\n\<close>, \<open>\r\<close>, \<open>\r\n\<close>, \<open>\v\<close>, \<open>\f\<close>,
  \<open>\x1c\<close>, \<open>\x1d\<close>, \<open>\x1e\<close>, \<open>\x85\<close> (bytes C2 85), U+2028 and U+2029 (bytes E2 80 A8
  and E2 80 A9). A boundary at the very end opens no further line.
\<close>

definition line_break_len :: "string \<Rightarrow> nat" where
  "line_break_len s =
     (if take 2 s = [CHR 0x0D, CHR 0x0A] then 2
      else if take 1 s \<in> {[CHR 0x0A], [CHR 0x0D], [CHR 0x0B], [CHR 0x0C],
                           [CHR 0x1C], [CHR 0x1D], [CHR 0x1E]} then 1
      else if take 2 s = [CHR 0xC2, CHR 0x85] then 2
      else if take 3 s \<in> {[CHR 0xE2, CHR 0x80, CHR 0xA8], [CHR 0xE2, CHR 0x80, CHR 0xA9]} then 3
      else 0)"

function splitlines_from :: "string \<Rightarrow> string \<Rightarrow> string list" where
  "splitlines_from cur [] = (if cur = [] then [] else [cur])"
| "splitlines_from cur (c # cs) =
     (if line_break_len (c # cs) = 0 then splitlines_from (cur @ [c]) cs
      else cur # splitlines_from [] (drop (line_break_len (c # cs)) (c # cs)))"
  by pat_completeness auto
termination
  by (relation "measure (\<lambda>(cur, s). length s)") auto

definition splitlines :: "string \<Rightarrow> string list" where
  "splitlines s = splitlines_from [] s"

text \<open>
  \<open>s.strip()\<close> removes the whitespace characters at both ends: U+0009 to U+000D,
  U+001C to U+0020, U+0085, U+00A0, U+1680, U+2000 to U+200A, U+2028, U+2029, U+202F,
  U+205F and U+3000. \<open>ws_len s\<close> is the number of bytes of the whitespace character
  \<open>s\<close> starts with, 0 when it starts with none.
\<close>

definition ws_len :: "string \<Rightarrow> nat" where
  "ws_len s =
     (if take 1 s \<in> {[CHR 0x09], [CHR 0x0A], [CHR 0x0B], [CHR 0x0C], [CHR 0x0D],
                      [CHR 0x1C], [CHR 0x1D], [CHR 0x1E], [CHR 0x1F], [CHR 0x20]} then 1
      else if take 2 s \<in> {[CHR 0xC2, CHR 0x85], [CHR 0xC2, CHR 0xA0]} then 2
      else if take 3 s \<in> {[CHR 0xE1, CHR 0x9A, CHR 0x80], [CHR 0xE2, CHR 0x80, CHR 0x80],
                           [CHR 0xE2, CHR 0x80, CHR 0x81], [CHR 0xE2, CHR 0x80, CHR 0x82],
                           [CHR 0xE2, CHR 0x80, CHR 0x83], [CHR 0xE2, CHR 0x80, CHR 0x84],
                           [CHR 0xE2, CHR 0x80, CHR 0x85], [CHR 0xE2, CHR 0x80, CHR 0x86],
                           [CHR 0xE2, CHR 0x80, CHR 0x87], [CHR 0xE2, CHR 0x80, CHR 0x88],
                           [CHR 0xE2, CHR 0x80, CHR 0x89], [CHR 0xE2, CHR 0x80, CHR 0x8A],
                           [CHR 0xE2, CHR 0x80, CHR 0xA8], [CHR 0xE2, CHR 0x80, CHR 0xA9],
                           [CHR 0xE2, CHR 0x80, CHR 0xAF], [CHR 0xE2, CHR 0x81, CHR 0x9F],
                           [CHR 0xE3, CHR 0x80, CHR 0x80]} then 3
      else 0)"

lemma ws_len_pos_nonempty: "ws_len s \<noteq> 0 \<Longrightarrow> s \<noteq> []"
  unfolding ws_len_def by (cases s) simp_all

lemma drop_ws_len_shorter: "0 < ws_len s \<Longrightarrow> length s - ws_len s < length s"
  using ws_len_pos_nonempty[of s] by (cases s) simp_all

function lstrip :: "string \<Rightarrow> string" where
  "lstrip s = (if ws_len s = 0 then s else lstrip (drop (ws_len s) s))"
  by pat_completeness auto
termination
  by (relation "measure length") (simp_all add: drop_ws_len_shorter)

declare lstrip.simps [simp del]

function all_ws :: "string \<Rightarrow> bool" where
  "all_ws s = (if s = [] then True else if ws_len s = 0 then False else all_ws (drop (ws_len s) s))"
  by pat_completeness auto
termination
  by (relation "measure length") (simp_all add: drop_ws_len_shorter)

declare all_ws.simps [simp del]

fun rstrip :: "string \<Rightarrow> string" where
  "rstrip [] = []"
| "rstrip (c # cs) = (if all_ws (c # cs) then [] else c # rstrip cs)"

definition strip :: "string \<Rightarrow> string" where
  "strip s = rstrip (lstrip s)"

text \<open>\<open>str(n)\<close> for an integer.\<close>

function str_nat :: "nat \<Rightarrow> string" where
  "str_nat n = (if n < 10 then [''0123456789'' ! n] else str_nat (n div 10) @ [''0123456789'' ! (n mod 10)])"
  by pat_completeness auto
termination
  by (relation "measure id") auto

declare str_nat.simps [simp del]

definition str_int :: "int \<Rightarrow> string" where
  "str_int i = (if i < 0 then ''-'' @ str_nat (nat (- i)) else str_nat (nat i))"

section \<open>Python operations on decoded values\<close>

text \<open>
  \<open>str(x)\<close>, as an f-string applies it. How \<open>str\<close> prints a list or a dict
  (\<open>repr\<close> of each member) is outside this model: \<open>NotModelled\<close>.
\<close>

fun py_str :: "json \<Rightarrow> string res" where
  "py_str (JStr s) = Inr s"
| "py_str (JNum n) = Inr (str_int n)"
| "py_str JNull = Inr ''None''"
| "py_str (JBool b) = Inr (if b then ''True'' else ''False'')"
| "py_str _ = Inl NotModelled"

text \<open>
  \<open>a == b\<close> on decoded values: \<open>True == 1\<close> and \<open>False == 0\<close>, lists compare member by
  member, dicts as mappings whatever the order of their keys. \<open>canon\<close> maps equal values
  to one representative.
\<close>

fun insert_key :: "string \<times> json \<Rightarrow> (string \<times> json) list \<Rightarrow> (string \<times> json) list" where
  "insert_key p [] = [p]"
| "insert_key p (q # qs) =
     (if lexordp (\<lambda>a b. of_char a < (of_char b :: nat)) (fst p) (fst q) then p # q # qs
      else q # insert_key p qs)"

primrec canon :: "json \<Rightarrow> json" where
  "canon JNull = JNull"
| "canon (JBool b) = JNum (if b then 1 else 0)"
| "canon (JNum n) = JNum n"
| "canon (JStr s) = JStr s"
| "canon (JList xs) = JList (map canon xs)"
| "canon (JDict d) = JDict (foldr insert_key (map (map_prod id canon) d) [])"

definition py_eq :: "json \<Rightarrow> json \<Rightarrow> bool" where
  "py_eq a b = (canon a = canon b)"

text \<open>\<open>len(x)\<close>; a \<open>str\<close> counts characters, not bytes.\<close>

definition is_continuation :: "char \<Rightarrow> bool" where
  "is_continuation c = (128 \<le> (of_char c :: nat) \<and> (of_char c :: nat) < 192)"

fun py_len :: "json \<Rightarrow> nat res" where
  "py_len (JList xs) = Inr (length xs)"
| "py_len (JDict d) = Inr (length d)"
| "py_len (JStr s) = Inr (length (filter (\<lambda>c. \<not> is_continuation c) s))"
| "py_len _ = Inl TypeError"

text \<open>
  \<open>for x in v\<close>: the members of a list, the keys of a dict, the characters of a \<open>str\<close>.
\<close>

function utf8_chars :: "string \<Rightarrow> string list" where
  "utf8_chars [] = []"
| "utf8_chars (c # cs) = (c # takeWhile is_continuation cs) # utf8_chars (dropWhile is_continuation cs)"
  by pat_completeness auto
termination
  by (relation "measure length") (auto simp: length_dropWhile_le less_Suc_eq_le)

fun py_iter :: "json \<Rightarrow> json list res" where
  "py_iter (JList xs) = Inr xs"
| "py_iter (JDict d) = Inr (map (\<lambda>p. JStr (fst p)) d)"
| "py_iter (JStr s) = Inr (map JStr (utf8_chars s))"
| "py_iter _ = Inl TypeError"

text \<open>\<open>sub in x\<close> for a string \<open>sub\<close>.\<close>

fun py_contains :: "string \<Rightarrow> json \<Rightarrow> bool res" where
  "py_contains sub (JStr s) = Inr (contains sub s)"
| "py_contains sub (JList xs) = Inr (\<exists>x \<in> set xs. py_eq x (JStr sub))"
| "py_contains sub (JDict d) = Inr (sub \<in> fst ` set d)"
| "py_contains sub _ = Inl TypeError"

text \<open>\<open>sep.join(xs)\<close>: every member has to be a \<open>str\<close>.\<close>

fun as_strs :: "json list \<Rightarrow> string list res" where
  "as_strs [] = Inr []"
| "as_strs (JStr s # xs) = bind (as_strs xs) (\<lambda>ss. Inr (s # ss))"
| "as_strs (_ # xs) = Inl TypeError"

definition py_join :: "string \<Rightarrow> json list \<Rightarrow> string res" where
  "py_join sep xs = bind (as_strs xs) (\<lambda>ss. Inr (join sep ss))"

text \<open>
  \<open>dateutil.parser.parse(x)\<close>. The parser is a library: \<open>parse\<close> is its result on a
  string, as seconds since the epoch, \<open>None\<close> where it raises \<open>ParserError\<close> (a
  \<open>ValueError\<close>). Anything but a string is a \<open>TypeError\<close>.
\<close>

fun parse_date :: "(string \<Rightarrow> int option) \<Rightarrow> json \<Rightarrow> int res" where
  "parse_date parse (JStr s) = (case parse s of None \<Rightarrow> Inl ValueError | Some t \<Rightarrow> Inr t)"
| "parse_date parse _ = Inl TypeError"

section \<open>The world: network, clock, log, and the helper's mutable fields\<close>

text \<open>
  One call runs as a single task. What the network answers is not decided by the program:
  \<open>responses\<close> lists the outcome of each GET the task will issue, in order, and an
  exhausted list means the connection fails. \<open>NoResponse\<close> is an exception raised by
  \<open>session.get\<close>; \<open>Response status body\<close> carries the HTTP status and what
  \<open>r.json()\<close> returns (\<open>None\<close> when it raises). \<open>trace\<close> records the GETs, the sleeps and
  the log calls in the order they happen. \<open>user_cache\<close> is \<open>self.user_cache\<close> and
  \<open>state\<close> is \<open>self.state\<close>.
\<close>

datatype response = NoResponse | Response nat "json option"

datatype effect =
    HttpGet string "(string \<times> json) list option" string
  | Sleep int
  | LogWarning string
  | LogError string

record world =
  responses :: "response list"
  clock :: int
  trace :: "effect list"
  user_cache :: "string option \<rightharpoonup> json"
  state :: "string \<rightharpoonup> json"

record config =
  github_api_auth :: string
  commit_truncation_limit :: int
  workflow_id :: string
  emotes_passed :: string
  emotes_partial :: string
  emotes_failed :: string

definition emit :: "effect \<Rightarrow> world \<Rightarrow> world" where
  "emit e w = w\<lparr>trace := trace w @ [e]\<rparr>"

text \<open>\<open>await asyncio.sleep(seconds)\<close>.\<close>

definition sleep :: "int \<Rightarrow> world \<Rightarrow> world" where
  "sleep seconds w = (emit (Sleep seconds) w)\<lparr>clock := clock w + seconds\<rparr>"

text \<open>
  \<open>self.session.get(url, params=..., headers=dict(Authorization=auth))\<close>. The client
  refuses a url that is not a \<open>str\<close> before anything is sent.
\<close>

fun session_get :: "json \<Rightarrow> (string \<times> json) list option \<Rightarrow> string \<Rightarrow> world \<Rightarrow> response \<times> world" where
  "session_get (JStr u) params auth w =
     (case responses w of
        [] \<Rightarrow> (NoResponse, emit (HttpGet u params auth) w)
      | r # rs \<Rightarrow> (r, (emit (HttpGet u params auth) w)\<lparr>responses := rs\<rparr>))"
| "session_get _ params auth w = (NoResponse, w)"

section \<open>get\_with\_retry\<close>

text \<open>
  One pass through the \<open>try\<close> block: \<open>r.raise_for_status()\<close> raises for a status of 400
  or more, then \<open>r.json()\<close> may raise. \<open>None\<close> stands for "an exception was raised".
\<close>

fun checked_json :: "response \<Rightarrow> json option" where
  "checked_json NoResponse = None"
| "checked_json (Response status body) = (if status < 400 then body else None)"

definition default_retries :: nat where
  "default_retries = 5"

definition default_retry_interval :: int where
  "default_retry_interval = 5"

fun get_with_retry ::
  "config \<Rightarrow> json \<Rightarrow> (string \<times> json) list option \<Rightarrow> nat \<Rightarrow> int \<Rightarrow> world \<Rightarrow> json \<times> world" where
  "get_with_retry cfg url params 0 retry_interval w =
     (JNull, emit (LogError ''Retries exhausted!'') w)"
| "get_with_retry cfg url params (Suc retries) retry_interval w =
     (case session_get url params (github_api_auth cfg) w of (r, w1) \<Rightarrow>
        (case checked_json r of
           Some body \<Rightarrow> (body, w1)
         | None \<Rightarrow>
             get_with_retry cfg url params retries retry_interval
               (sleep retry_interval (emit (LogWarning ''Github API request failed'') w1))))"

section \<open>get\_author\_info\<close>

definition user_cache_max_age :: int where
  "user_cache_max_age = 3600 * 24 * 7"

text \<open>The right operand of \<open>time.time() - x\<close>: a number (\<open>bool\<close> is one in Python).\<close>

fun as_number :: "json \<Rightarrow> int res" where
  "as_number (JNum n) = Inr n"
| "as_number (JBool b) = Inr (if b then 1 else 0)"
| "as_number _ = Inl TypeError"

text \<open>
  The cache check that opens \<open>get_author_info\<close>: \<open>Some entry\<close> when the function returns
  the cached entry at once, \<open>None\<close> when it goes on to the request.
\<close>

definition cached_entry :: "string option \<Rightarrow> world \<Rightarrow> json option res" where
  "cached_entry username w =
     (case user_cache w username of
        None \<Rightarrow> Inr None
      | Some entry \<Rightarrow>
          bind (dict_get entry ''_timestamp'' (JNum 0)) (\<lambda>ts.
          bind (as_number ts) (\<lambda>t.
            if clock w - t > user_cache_max_age then Inr (Some entry) else Inr None)))"

text \<open>\<open>f'https://api.github.com/users/{username}'\<close>; \<open>None\<close> prints as \<open>None\<close>.\<close>

definition user_url :: "string option \<Rightarrow> string" where
  "user_url username =
     ''https://api.github.com/users/'' @ (case username of None \<Rightarrow> ''None'' | Some u \<Rightarrow> u)"

text \<open>
  The \<open>try\<close> block never calls \<open>raise_for_status\<close>: any decoded body is stored. Storing
  the timestamp into a body that is not a dict raises inside the \<open>try\<close>, after the body
  has been put into the cache.
\<close>

definition get_author_info :: "config \<Rightarrow> string option \<Rightarrow> world \<Rightarrow> json res \<times> world" where
  "get_author_info cfg username w =
     (case cached_entry username w of
        Inl e \<Rightarrow> (Inl e, w)
      | Inr (Some entry) \<Rightarrow> (Inr entry, w)
      | Inr None \<Rightarrow>
          (case session_get (JStr (user_url username)) None (github_api_auth cfg) w of (r, w1) \<Rightarrow>
             (case r of
                Response status (Some (JDict d)) \<Rightarrow>
                  (let entry = JDict (dict_set ''_timestamp'' (JNum (clock w1)) d)
                   in (Inr entry, w1\<lparr>user_cache := (user_cache w1)(username \<mapsto> entry)\<rparr>))
              | Response status (Some author) \<Rightarrow>
                  (Inr author,
                   emit (LogWarning ''Fetching github userdata failed'')
                     (w1\<lparr>user_cache := (user_cache w1)(username \<mapsto> author)\<rparr>))
              | _ \<Rightarrow>
                  (Inr (case user_cache w1 username of None \<Rightarrow> JNull | Some entry \<Rightarrow> entry),
                   emit (LogWarning ''Fetching github userdata failed'') w1))))"

section \<open>Message descriptors\<close>

text \<open>
  \<open>discord.Embed\<close> keeps what it is given. \<open>embed_author\<close> is what \<open>set_author\<close> stored,
  \<open>embed_footer\<close> what \<open>set_footer\<close> stored and \<open>embed_fields\<close> the \<open>add_field\<close> calls in
  order, each (name, value, inline).
\<close>

record author_block =
  ab_name :: json
  ab_url :: "json option"
  ab_icon_url :: "json option"

record embed =
  embed_title :: string
  embed_colour :: nat
  embed_url :: json
  embed_timestamp :: "int option"
  embed_description :: "string option"
  embed_author :: "author_block option"
  embed_footer :: "string option"
  embed_fields :: "(string \<times> json \<times> bool) list"

definition commit_colour :: nat where "commit_colour = 0xffffff"
definition skipped_commit_colour :: nat where "skipped_commit_colour = 0x9b9b9b"
definition pull_request_colour :: nat where "pull_request_colour = 0x366d6"
definition issue_colour :: nat where "issue_colour = 0x2CBE4E"
definition ci_failed_colour :: nat where "ci_failed_colour = 0xd0021b"
definition ci_some_failed_colour :: nat where "ci_some_failed_colour = 0xF5A623"
definition ci_passed_colour :: nat where "ci_passed_colour = 0x7ED321"

text \<open>\<open>Embed(title=..., colour=Colour(...), url=..., timestamp=..., description=...)\<close>.\<close>

definition new_embed :: "string \<Rightarrow> nat \<Rightarrow> json \<Rightarrow> int option \<Rightarrow> string option \<Rightarrow> embed" where
  "new_embed t c u ts d =
     \<lparr>embed_title = t, embed_colour = c, embed_url = u, embed_timestamp = ts,
      embed_description = d, embed_author = None, embed_footer = None, embed_fields = []\<rparr>"

definition add_field :: "string \<Rightarrow> json \<Rightarrow> bool \<Rightarrow> embed \<Rightarrow> embed" where
  "add_field n v inline e = e\<lparr>embed_fields := embed_fields e @ [(n, v, inline)]\<rparr>"

section \<open>Webhook events\<close>

text \<open>
  The webhook payloads, with the fields the code reads, typed as GitHub's webhook schema
  gives them. \<open>ca_username\<close> and \<open>ca_name\<close> are \<open>commit['author'].get('username', None)\<close>
  and \<open>.get('name', None)\<close>. \<open>pr_body\<close> and \<open>issue_body\<close> are \<open>None\<close> when the payload
  holds \<open>null\<close>.
\<close>

record commit_author =
  ca_username :: "string option"
  ca_name :: "string option"

record commit =
  commit_id :: string
  commit_author :: commit_author
  commit_timestamp :: string
  commit_message :: string
  commit_url :: string

record push_event =
  push_ref :: string
  push_repo_full_name :: string
  push_commits :: "commit list"

record user_block =
  user_login :: string
  user_html_url :: string
  user_avatar_url :: string

record pr_event =
  pr_number :: int
  pr_title :: string
  pr_created_at :: string
  pr_html_url :: string
  pr_user :: user_block
  pr_body :: "string option"
  pr_repo_full_name :: string

record issue_event =
  issue_number :: int
  issue_title :: string
  issue_created_at :: string
  issue_html_url :: string
  issue_user :: user_block
  issue_body :: "string option"
  issue_repo_full_name :: string

record check_suite_event =
  check_suite_id :: int

section \<open>get\_commit\_messages\<close>

text \<open>The author block built from a profile that tests true (lines 60 to 65).\<close>

definition profile_author :: "json \<Rightarrow> author_block res" where
  "profile_author author =
     bind (getitem author ''name'') (\<lambda>nm.
     bind (if truthy nm then
             bind (getitem author ''name'') (\<lambda>nm2.
             bind (getitem author ''login'') (\<lambda>login.
               if \<not> py_eq nm2 login then
                 bind (getitem author ''name'') (\<lambda>a.
                 bind (py_str a) (\<lambda>a_str.
                 bind (getitem author ''login'') (\<lambda>b.
                 bind (py_str b) (\<lambda>b_str.
                   Inr (JStr (a_str @ '' ('' @ b_str @ '')''))))))
               else getitem author ''login''))
           else getitem author ''login'') (\<lambda>author_name.
     bind (getitem author ''html_url'') (\<lambda>html_url.
     bind (getitem author ''avatar_url'') (\<lambda>avatar_url.
       Inr \<lparr>ab_name = author_name, ab_url = Some html_url, ab_icon_url = Some avatar_url\<rparr>))))"

text \<open>The body of the loop over the commits (lines 46 to 74): the embed of one commit.\<close>

definition format_commit ::
  "config \<Rightarrow> (string \<Rightarrow> int option) \<Rightarrow> bool \<Rightarrow> string \<Rightarrow> string \<Rightarrow> commit \<Rightarrow> world \<Rightarrow> embed res \<times> world" where
  "format_commit cfg parse brief project branch c w =
     (let author_username = ca_username (commit_author c);
          author_name = ca_name (commit_author c)
      in case parse (commit_timestamp c) of
           None \<Rightarrow> (Inl ValueError, w)
         | Some timestamp \<Rightarrow>
             (let commit_message = split CHR ''\<newline>'' (commit_message c);
                  embed0 = new_embed (hd commit_message) commit_colour (JStr (commit_url c))
                             (Some timestamp) None;
                  embed1 = (if length commit_message > 2 \<and> \<not> brief
                            then embed0\<lparr>embed_description :=
                                   Some (join ''\<newline>'' (drop 2 commit_message))\<rparr>
                            else embed0)
              in case get_author_info cfg author_username w of
                   (Inl e, w1) \<Rightarrow> (Inl e, w1)
                 | (Inr author, w1) \<Rightarrow>
                     (case (if truthy author then profile_author author
                            else if author_name \<noteq> None \<and> author_name \<noteq> Some []
                            then Inr \<lparr>ab_name = JStr (the author_name), ab_url = None, ab_icon_url = None\<rparr>
                            else Inr \<lparr>ab_name = JStr ''<No Name>'', ab_url = None, ab_icon_url = None\<rparr>) of
                        Inl e \<Rightarrow> (Inl e, w1)
                      | Inr ab \<Rightarrow>
                          (Inr (add_field ''Branch'' (JStr branch) True
                                 (add_field ''Repository'' (JStr project) True
                                   (embed1\<lparr>embed_author := Some ab, embed_footer := Some ''Commit''\<rparr>))),
                           w1))))"

fun format_commits ::
  "config \<Rightarrow> (string \<Rightarrow> int option) \<Rightarrow> bool \<Rightarrow> string \<Rightarrow> string \<Rightarrow> commit list \<Rightarrow>
   (embed \<times> string option) list \<Rightarrow> world \<Rightarrow> (embed \<times> string option) list res \<times> world" where
  "format_commits cfg parse brief project branch [] embed_commits w = (Inr embed_commits, w)"
| "format_commits cfg parse brief project branch (c # cs) embed_commits w =
     (case format_commit cfg parse brief project branch c w of
        (Inl e, w1) \<Rightarrow> (Inl e, w1)
      | (Inr emb, w1) \<Rightarrow>
          format_commits cfg parse brief project branch cs
            (embed_commits @ [(emb, Some (commit_id c))]) w1)"

text \<open>The embed that stands for the commits left out (lines 37 to 41).\<close>

definition skipped_embed :: "string \<Rightarrow> nat \<Rightarrow> string \<Rightarrow> string \<Rightarrow> embed" where
  "skipped_embed project n first_hash last_hash =
     new_embed (''Skipped '' @ str_int (int n - 1) @ '' commits... (click link for diff)'')
       skipped_commit_colour
       (JStr (''https://github.com/'' @ project @ ''/compare/'' @ first_hash @ ''^...'' @ last_hash))
       None None"

definition get_commit_messages ::
  "config \<Rightarrow> (string \<Rightarrow> int option) \<Rightarrow> push_event \<Rightarrow> bool \<Rightarrow> world \<Rightarrow>
   (embed \<times> string option) list res \<times> world" where
  "get_commit_messages cfg parse event_body brief w =
     (let branch = rpartition_tail CHR ''/'' (push_ref event_body);
          project = push_repo_full_name event_body;
          commits = push_commits event_body
      in if brief \<and> int (length commits) > commit_truncation_limit cfg then
           (if length commits < 1 then (Inl IndexError, w)
            else if length commits < 2 then (Inl IndexError, w)
            else
              (let first_hash = commit_id (commits ! 0);
                   last_hash = commit_id (commits ! (length commits - 2));
                   embed = skipped_embed project (length commits) first_hash last_hash
               in format_commits cfg parse brief project branch
                    (drop (length commits - 1) commits) [(embed, None)] w))
         else format_commits cfg parse brief project branch commits [] w)"

section \<open>get\_pr\_messages and get\_issue\_messages\<close>

text \<open>The rewrite of the body text (lines 94 to 96 and 114 to 116).\<close>

definition strip_comment_lines :: "string \<Rightarrow> string" where
  "strip_comment_lines body =
     join ''\<newline>'' (map strip (filter (\<lambda>l. \<not> startswith l ''<!-'') (splitlines body)))"

text \<open>
  The result is the pair \<open>(brief_embed, embed)\<close>; the event, whose body the code
  rewrites in place, is returned as the third component.
\<close>

definition get_pr_messages ::
  "(string \<Rightarrow> int option) \<Rightarrow> pr_event \<Rightarrow> (embed \<times> embed \<times> pr_event) res" where
  "get_pr_messages parse event_body =
     (case parse (pr_created_at event_body) of
        None \<Rightarrow> Inl ValueError
      | Some timestamp \<Rightarrow>
          (let embed =
                 add_field ''Repository'' (JStr (pr_repo_full_name event_body)) True
                   ((new_embed (''#'' @ str_int (pr_number event_body) @ '': '' @ pr_title event_body)
                       pull_request_colour (JStr (pr_html_url event_body)) (Some timestamp) None)
                    \<lparr>embed_author :=
                       Some \<lparr>ab_name = JStr (user_login (pr_user event_body)),
                             ab_url = Some (JStr (user_html_url (pr_user event_body))),
                             ab_icon_url = Some (JStr (user_avatar_url (pr_user event_body)))\<rparr>,
                     embed_footer := Some ''Pull Request''\<rparr>);
               brief_embed = embed
           in case pr_body event_body of
                None \<Rightarrow> Inl AttributeError
              | Some body \<Rightarrow>
                  (let event_body' = event_body\<lparr>pr_body := Some (strip_comment_lines body)\<rparr>
                   in Inr (brief_embed,
                           embed\<lparr>embed_description := pr_body event_body'\<rparr>,
                           event_body'))))"

definition get_issue_messages ::
  "(string \<Rightarrow> int option) \<Rightarrow> issue_event \<Rightarrow> (embed \<times> embed \<times> issue_event) res" where
  "get_issue_messages parse event_body =
     (case parse (issue_created_at event_body) of
        None \<Rightarrow> Inl ValueError
      | Some timestamp \<Rightarrow>
          (let embed =
                 add_field ''Repository'' (JStr (issue_repo_full_name event_body)) True
                   ((new_embed (''#'' @ str_int (issue_number event_body) @ '': '' @ issue_title event_body)
                       issue_colour (JStr (issue_html_url event_body)) (Some timestamp) None)
                    \<lparr>embed_author :=
                       Some \<lparr>ab_name = JStr (user_login (issue_user event_body)),
                             ab_url = Some (JStr (user_html_url (issue_user event_body))),
                             ab_icon_url = Some (JStr (user_avatar_url (issue_user event_body)))\<rparr>,
                     embed_footer := Some ''Issue''\<rparr>);
               brief_embed = embed
           in case issue_body event_body of
                None \<Rightarrow> Inl AttributeError
              | Some body \<Rightarrow>
                  (let event_body' = event_body\<lparr>issue_body := Some (strip_comment_lines body)\<rparr>
                   in Inr (brief_embed,
                           embed\<lparr>embed_description := issue_body event_body'\<rparr>,
                           event_body'))))"

section \<open>get\_ci\_results\<close>

text \<open>
  The scan for the run of the check suite (lines 131 to 136): \<open>Some run\<close> when the loop
  leaves by \<open>break\<close>, \<open>None\<close> when it runs to its \<open>else\<close>.
\<close>

fun find_run :: "json list \<Rightarrow> int \<Rightarrow> json option res" where
  "find_run [] csid = Inr None"
| "find_run (run # runs) csid =
     bind (getitem run ''check_suite_id'') (\<lambda>v.
       if py_eq v (JNum csid) then Inr (Some run) else find_run runs csid)"

text \<open>
  The metadata read from the run (lines 139 to 147). A \<open>datetime\<close> is its number of
  seconds since the epoch, so \<open>(finished - started).seconds\<close>, the seconds of the
  difference without its days, is the difference modulo 86400.
\<close>

record run_info =
  ri_commit_hash :: json
  ri_finished :: int
  ri_minutes :: int
  ri_seconds :: int
  ri_repo :: json
  ri_branch :: json
  ri_web_url :: json

definition run_metadata :: "(string \<Rightarrow> int option) \<Rightarrow> json \<Rightarrow> run_info res" where
  "run_metadata parse run =
     bind (getitem run ''head_sha'') (\<lambda>commit_hash.
     bind (getitem run ''updated_at'') (\<lambda>updated_at.
     bind (parse_date parse updated_at) (\<lambda>finished.
     bind (getitem run ''created_at'') (\<lambda>created_at.
     bind (parse_date parse created_at) (\<lambda>started.
     bind (getitem run ''repository'') (\<lambda>repository.
     bind (getitem repository ''full_name'') (\<lambda>repo.
     bind (getitem run ''head_branch'') (\<lambda>branch.
     bind (getitem run ''html_url'') (\<lambda>web_url.
       (let delta = (finished - started) mod 86400
        in Inr \<lparr>ri_commit_hash = commit_hash, ri_finished = finished,
                ri_minutes = delta div 60, ri_seconds = delta mod 60,
                ri_repo = repo, ri_branch = branch, ri_web_url = web_url\<rparr>))))))))))"

text \<open>\<open>sum(i['conclusion'] != 'success' for i in jobs)\<close>.\<close>

fun count_failed :: "json list \<Rightarrow> nat res" where
  "count_failed [] = Inr 0"
| "count_failed (i # jobs) =
     bind (getitem i ''conclusion'') (\<lambda>c.
     bind (count_failed jobs) (\<lambda>n.
       Inr ((if c \<noteq> JStr ''success'' then 1 else 0) + n)))"

text \<open>\<open>[job['name'] for job in jobs if P(job['conclusion'])]\<close>.\<close>

fun names_where :: "(json \<Rightarrow> bool) \<Rightarrow> json list \<Rightarrow> json list res" where
  "names_where P [] = Inr []"
| "names_where P (job # jobs) =
     bind (getitem job ''conclusion'') (\<lambda>c.
       if P c then
         bind (getitem job ''name'') (\<lambda>n.
         bind (names_where P jobs) (\<lambda>ns. Inr (n # ns)))
       else names_where P jobs)"

text \<open>The classification of the jobs and the message lines (lines 153 to 178).\<close>

record job_summary =
  js_build_success :: bool
  js_colour :: nat
  js_reaction_emote :: string
  js_build_result :: string
  js_message :: "string list"

definition summarise_jobs :: "config \<Rightarrow> int \<Rightarrow> int \<Rightarrow> json \<Rightarrow> job_summary res" where
  "summarise_jobs cfg minutes seconds jobs_payload =
     bind (getitem jobs_payload ''jobs'') (\<lambda>jobs.
     bind (py_len jobs) (\<lambda>total_jobs.
     bind (py_iter jobs) (\<lambda>js.
     bind (count_failed js) (\<lambda>failed.
       (let after = '' after '' @ str_int minutes @ ''m'' @ str_int seconds @ ''s'';
            colour = (if failed = 0 then ci_passed_colour
                      else if failed < total_jobs then ci_some_failed_colour
                      else ci_failed_colour);
            reaction_emote = (if failed = 0 then emotes_passed cfg
                              else if failed < total_jobs then emotes_partial cfg
                              else emotes_failed cfg);
            build_result = (if failed = 0 then ''succeeded''
                            else if failed < total_jobs then ''partially failed''
                            else ''failed'');
            summary = (if failed = 0 then ''All jobs succeeded'' @ after
                       else if failed < total_jobs
                       then str_nat failed @ '' out of '' @ str_nat total_jobs @ '' jobs failed'' @ after
                       else ''All jobs failed'' @ after)
        in bind (names_where (\<lambda>c. c = JStr ''success'') js) (\<lambda>succeeded.
           bind (if succeeded \<noteq> []
                 then bind (py_join '', '' succeeded) (\<lambda>s. Inr [''**Succeeded:** '' @ s])
                 else Inr []) (\<lambda>succeeded_line.
           bind (names_where (\<lambda>c. c \<noteq> JStr ''success'') js) (\<lambda>failed_names.
           bind (if failed_names \<noteq> []
                 then bind (py_join '', '' failed_names) (\<lambda>s. Inr [''**Failed:** '' @ s])
                 else Inr []) (\<lambda>failed_line.
             Inr \<lparr>js_build_success = (failed = 0), js_colour = colour,
                   js_reaction_emote = reaction_emote, js_build_result = build_result,
                   js_message = [summary] @ succeeded_line @ failed_line\<rparr>)))))))))"

text \<open>\<open>x[key] = v\<close> with a string key.\<close>

fun setitem :: "json \<Rightarrow> string \<Rightarrow> json \<Rightarrow> json res" where
  "setitem (JDict d) k v = Inr (JDict (dict_set k v d))"
| "setitem _ k v = Inl TypeError"

text \<open>The update of the nightly slots for one artifact (lines 191 to 195).\<close>

definition update_nightly ::
  "bool \<Rightarrow> json \<Rightarrow> json \<Rightarrow> (string \<rightharpoonup> json) \<Rightarrow> (string \<rightharpoonup> json) res" where
  "update_nightly build_success branch artifact st =
     (if build_success \<and> py_eq branch (JStr ''master'') then
        bind (getitem artifact ''name'') (\<lambda>nm.
        bind (py_contains ''macOS'' nm) (\<lambda>mac.
          if mac then Inr (st(''nightly_macos'' \<mapsto> artifact))
          else bind (py_contains ''win64'' nm) (\<lambda>win.
            if win then Inr (st(''nightly_windows'' \<mapsto> artifact)) else Inr st)))
      else Inr st)"

text \<open>
  The body of the loop over the artifacts (lines 187 to 197): the artifact gets its
  download url, the slots are updated, and the entry for the embed is returned. An
  exception raised after the slot was written leaves it written.
\<close>

definition artifact_step ::
  "bool \<Rightarrow> json \<Rightarrow> int \<Rightarrow> json \<Rightarrow> world \<Rightarrow> string res \<times> world" where
  "artifact_step build_success branch csid artifact w =
     (case bind (getitem artifact ''id'') (\<lambda>aid.
           bind (py_str aid) (\<lambda>aid_str.
           setitem artifact ''archive_download_url''
             (JStr (''https://github.com/obsproject/obs-studio/suites/'' @ str_int csid
                    @ ''/artifacts/'' @ aid_str)))) of
        Inl e \<Rightarrow> (Inl e, w)
      | Inr artifact' \<Rightarrow>
          (case update_nightly build_success branch artifact' (state w) of
             Inl e \<Rightarrow> (Inl e, w)
           | Inr st \<Rightarrow>
               (bind (getitem artifact' ''name'') (\<lambda>nm.
                bind (py_str nm) (\<lambda>nm_str.
                bind (getitem artifact' ''archive_download_url'') (\<lambda>u.
                bind (py_str u) (\<lambda>u_str.
                  Inr (''['' @ nm_str @ '']('' @ u_str @ '')''))))),
                w\<lparr>state := st\<rparr>)))"

fun artifacts_loop ::
  "bool \<Rightarrow> json \<Rightarrow> int \<Rightarrow> json list \<Rightarrow> string list \<Rightarrow> world \<Rightarrow> string list res \<times> world" where
  "artifacts_loop build_success branch csid [] artifacts_entries w = (Inr artifacts_entries, w)"
| "artifacts_loop build_success branch csid (artifact # artifacts) artifacts_entries w =
     (case artifact_step build_success branch csid artifact w of
        (Inl e, w1) \<Rightarrow> (Inl e, w1)
      | (Inr entry, w1) \<Rightarrow>
          artifacts_loop build_success branch csid artifacts (artifacts_entries @ [entry]) w1)"

text \<open>The embed and the tuple returned at the end (lines 199 to 208).\<close>

definition ci_embed :: "json \<Rightarrow> run_info \<Rightarrow> job_summary \<Rightarrow> string list \<Rightarrow> embed res" where
  "ci_embed run info summary artifacts_entries =
     bind (getitem run ''run_number'') (\<lambda>rn.
     bind (py_str rn) (\<lambda>run_number.
       Inr (add_field ''Artifacts'' (JStr (join ''\<newline>'' artifacts_entries)) False
             (add_field ''Branch'' (ri_branch info) True
               (add_field ''Project'' (ri_repo info) True
                 ((new_embed (''Build '' @ run_number @ '' '' @ js_build_result summary)
                     (js_colour summary) (ri_web_url info) (Some (ri_finished info))
                     (Some (join ''\<newline>'' (js_message summary))))
                  \<lparr>embed_author :=
                     Some \<lparr>ab_name = JStr ''GitHub Actions'', ab_url = None,
                           ab_icon_url =
                             Some (JStr ''https://cdn.rodney.io/stuff/obsbot/github_actions.png'')\<rparr>\<rparr>))))))"

definition runs_url :: "config \<Rightarrow> string" where
  "runs_url cfg =
     ''https://api.github.com/repos/obsproject/obs-studio/actions/workflows/''
     @ workflow_id cfg @ ''/runs''"

definition runs_params :: "(string \<times> json) list option" where
  "runs_params =
     Some [(''event'', JStr ''push''), (''status'', JStr ''completed''), (''per_page'', JNum 50)]"

type_synonym ci_result = "embed \<times> json \<times> string \<times> string \<times> json"

text \<open>
  \<open>Inr None\<close> is the return of \<open>None\<close>, \<open>Inr (Some (embed, (commit_hash, message[0],
  reaction_emote, web_url)))\<close> the return of the tuple, \<open>Inl e\<close> an exception that leaves
  the function.
\<close>

definition get_ci_results ::
  "config \<Rightarrow> (string \<Rightarrow> int option) \<Rightarrow> check_suite_event \<Rightarrow> world \<Rightarrow> ci_result option res \<times> world" where
  "get_ci_results cfg parse event_body w =
     (let csid = check_suite_id event_body
      in case get_with_retry cfg (JStr (runs_url cfg)) runs_params
                default_retries default_retry_interval w of (runs, w1) \<Rightarrow>
         if \<not> truthy runs
         then (Inr None, emit (LogError ''Getting GitHub workflow runs failed.'') w1)
         else
           (case bind (getitem runs ''workflow_runs'') (\<lambda>wr.
                 bind (py_iter wr) (\<lambda>rs. find_run rs csid)) of
              Inl e \<Rightarrow> (Inl e, w1)
            | Inr None \<Rightarrow>
                (Inr None,
                 emit (LogError ''Could not find check suite id in workflow runs failed.'') w1)
            | Inr (Some run) \<Rightarrow>
                (case bind (run_metadata parse run) (\<lambda>info.
                      bind (getitem run ''jobs_url'') (\<lambda>jobs_url. Inr (info, jobs_url))) of
                   Inl e \<Rightarrow> (Inl e, w1)
                 | Inr (info, jobs_url) \<Rightarrow>
                     (case get_with_retry cfg jobs_url None
                             default_retries default_retry_interval w1 of (jobs, w2) \<Rightarrow>
                        if \<not> truthy jobs
                        then (Inr None,
                              emit (LogError ''Getting GitHub workflow run jobs failed.'') w2)
                        else
                          (case bind (summarise_jobs cfg (ri_minutes info) (ri_seconds info) jobs)
                                  (\<lambda>summary.
                                bind (getitem run ''artifacts_url'') (\<lambda>artifacts_url.
                                  Inr (summary, artifacts_url))) of
                             Inl e \<Rightarrow> (Inl e, w2)
                           | Inr (summary, artifacts_url) \<Rightarrow>
                               (case get_with_retry cfg artifacts_url None
                                       default_retries default_retry_interval w2 of
                                  (artifacts, w3) \<Rightarrow>
                                  if \<not> truthy artifacts
                                  then (Inr None,
                                        emit (LogError
                                          ''Getting GitHub workflow run artifacts failed.'') w3)
                                  else
                                    (case bind (getitem artifacts ''artifacts'') py_iter of
                                       Inl e \<Rightarrow> (Inl e, w3)
                                     | Inr arts \<Rightarrow>
                                         (case artifacts_loop (js_build_success summary)
                                                 (ri_branch info) csid arts [] w3 of
                                            (Inl e, w4) \<Rightarrow> (Inl e, w4)
                                          | (Inr artifacts_entries, w4) \<Rightarrow>
                                              (bind (ci_embed run info summary artifacts_entries)
                                                 (\<lambda>emb.
                                                 Inr (Some (emb, ri_commit_hash info,
                                                            hd (js_message summary),
                                                            js_reaction_emote summary,
                                                            ri_web_url info))),
                                               w4)))))))))"

section \<open>Terms used to state the properties\<close>

text \<open>What one failed pass of the retry loop adds to the trace.\<close>

definition failed_attempt ::
  "string \<Rightarrow> (string \<times> json) list option \<Rightarrow> string \<Rightarrow> int \<Rightarrow> effect list" where
  "failed_attempt u params auth iv =
     [HttpGet u params auth, LogWarning ''Github API request failed'', Sleep iv]"

definition is_get :: "effect \<Rightarrow> bool" where
  "is_get e = (case e of HttpGet u params auth \<Rightarrow> True | _ \<Rightarrow> False)"

definition is_sleep :: "int \<Rightarrow> effect \<Rightarrow> bool" where
  "is_sleep iv e = (e = Sleep iv)"

text \<open>A configuration and a starting world for the examples.\<close>

definition example_config :: config where
  "example_config =
     \<lparr>github_api_auth = ''token abc'', commit_truncation_limit = 5, workflow_id = ''583765'',
      emotes_passed = ''passed_emote'', emotes_partial = ''partial_emote'',
      emotes_failed = ''failed_emote''\<rparr>"

definition example_world :: "response list \<Rightarrow> world" where
  "example_world rs =
     \<lparr>responses = rs, clock = 1700000000, trace = [], user_cache = Map.empty,
      state = Map.empty\<rparr>"

text \<open>A profile as the users endpoint returns it, with the timestamp the cache adds.\<close>

definition example_profile :: "string \<Rightarrow> int \<Rightarrow> json" where
  "example_profile nm ts =
     JDict [(''login'', JStr ''alice''), (''name'', JStr nm),
            (''html_url'', JStr ''https://github.com/alice''),
            (''avatar_url'', JStr ''https://avatars.githubusercontent.com/u/1''),
            (''_timestamp'', JNum ts)]"

text \<open>A world whose cache holds the profile of \<open>alice\<close>, fetched \<open>age\<close> seconds ago.\<close>

definition cached_world :: "int \<Rightarrow> response list \<Rightarrow> world" where
  "cached_world age rs =
     (example_world rs)\<lparr>user_cache := [Some ''alice'' \<mapsto> example_profile ''Alice'' (1700000000 - age)]\<rparr>"

text \<open>The three fetches of \<open>get_ci_results\<close>, with the default retry count and interval.\<close>

abbreviation fetch_runs :: "config \<Rightarrow> world \<Rightarrow> json \<times> world" where
  "fetch_runs cfg w \<equiv>
     get_with_retry cfg (JStr (runs_url cfg)) runs_params default_retries default_retry_interval w"

abbreviation fetch :: "config \<Rightarrow> json \<Rightarrow> world \<Rightarrow> json \<times> world" where
  "fetch cfg url w \<equiv> get_with_retry cfg url None default_retries default_retry_interval w"

text \<open>Payloads of the three endpoints, a date parser and an event for the examples.\<close>

definition example_parse :: "string \<Rightarrow> int option" where
  "example_parse s =
     (if s = ''2021-01-01T00:00:00Z'' then Some 1609459200
      else if s = ''2021-01-01T00:10:05Z'' then Some 1609459805
      else None)"

definition example_run :: "string \<Rightarrow> json" where
  "example_run br =
     JDict [(''check_suite_id'', JNum 42), (''head_sha'', JStr ''abc123''),
            (''updated_at'', JStr ''2021-01-01T00:10:05Z''),
            (''created_at'', JStr ''2021-01-01T00:00:00Z''),
            (''repository'', JDict [(''full_name'', JStr ''obsproject/obs-studio'')]),
            (''head_branch'', JStr br),
            (''html_url'', JStr ''https://github.com/obsproject/obs-studio/actions/runs/7''),
            (''jobs_url'', JStr ''https://api.github.com/jobs''),
            (''artifacts_url'', JStr ''https://api.github.com/artifacts''),
            (''run_number'', JNum 7)]"

definition example_runs :: "string \<Rightarrow> json" where
  "example_runs br = JDict [(''total_count'', JNum 1), (''workflow_runs'', JList [example_run br])]"

definition example_job :: "string \<Rightarrow> string \<Rightarrow> json" where
  "example_job nm c = JDict [(''name'', JStr nm), (''conclusion'', JStr c)]"

definition example_jobs :: "json list \<Rightarrow> json" where
  "example_jobs js = JDict [(''total_count'', JNum (int (length js))), (''jobs'', JList js)]"

definition example_artifact :: "int \<Rightarrow> string \<Rightarrow> json" where
  "example_artifact i nm = JDict [(''id'', JNum i), (''name'', JStr nm)]"

definition example_artifacts :: "json list \<Rightarrow> json" where
  "example_artifacts arts = JDict [(''total_count'', JNum (int (length arts))), (''artifacts'', JList arts)]"

definition example_event :: "int \<Rightarrow> check_suite_event" where
  "example_event csid = \<lparr>check_suite_id = csid\<rparr>"

text \<open>
  A job as the jobs endpoint lists it: a dict with a \<open>conclusion\<close> and a \<open>name\<close> that is a
  string. \<open>job_failed\<close> is the test of lines 156 and 177.
\<close>

definition wf_job :: "json \<Rightarrow> bool" where
  "wf_job j =
     (case getitem j ''conclusion'' of
        Inl e \<Rightarrow> False
      | Inr c \<Rightarrow> (case getitem j ''name'' of Inr (JStr n) \<Rightarrow> True | _ \<Rightarrow> False))"

definition job_conclusion :: "json \<Rightarrow> json" where
  "job_conclusion j = (case getitem j ''conclusion'' of Inr c \<Rightarrow> c | Inl e \<Rightarrow> JNull)"

definition job_name :: "json \<Rightarrow> string" where
  "job_name j = (case getitem j ''name'' of Inr (JStr n) \<Rightarrow> n | _ \<Rightarrow> [])"

definition job_failed :: "json \<Rightarrow> bool" where
  "job_failed j = (job_conclusion j \<noteq> JStr ''success'')"

text \<open>The summary line for \<open>f\<close> failed jobs out of \<open>t\<close> (lines 163, 168 and 173).\<close>

definition summary_line :: "nat \<Rightarrow> nat \<Rightarrow> int \<Rightarrow> int \<Rightarrow> string" where
  "summary_line f t minutes seconds =
     (if f = 0 then ''All jobs succeeded''
      else if f < t then str_nat f @ '' out of '' @ str_nat t @ '' jobs failed''
      else ''All jobs failed'')
     @ '' after '' @ str_int minutes @ ''m'' @ str_int seconds @ ''s''"

text \<open>The characters \<open>str\<close> prints a natural number with.\<close>

definition is_digit :: "char \<Rightarrow> bool" where
  "is_digit c = (c \<in> set ''0123456789'')"

text \<open>The download url the loop stores into an artifact (lines 188 and 189).\<close>

definition download_url :: "int \<Rightarrow> string \<Rightarrow> json" where
  "download_url csid aid =
     JStr (''https://github.com/obsproject/obs-studio/suites/'' @ str_int csid
           @ ''/artifacts/'' @ aid)"

text \<open>The answers of the network to a run whose three fetches succeed at once.\<close>

definition example_responses :: "string \<Rightarrow> json list \<Rightarrow> response list" where
  "example_responses br arts =
     [Response 200 (Some (example_runs br)),
      Response 200 (Some (example_jobs [example_job ''macOS'' ''success''])),
      Response 200 (Some (example_artifacts arts))]"

text \<open>
  The cases in which the \<open>try\<close> block of \<open>get_author_info\<close> raises before anything is
  stored: the connection fails, or the body cannot be decoded.
\<close>

fun request_raises :: "response list \<Rightarrow> bool" where
  "request_raises [] = True"
| "request_raises (NoResponse # rs) = True"
| "request_raises (Response status None # rs) = True"
| "request_raises (Response status (Some body) # rs) = False"

text \<open>Webhook events for the examples.\<close>

definition example_commit :: "string \<Rightarrow> string option \<Rightarrow> string option \<Rightarrow> commit" where
  "example_commit h u n =
     \<lparr>commit_id = h, commit_author = \<lparr>ca_username = u, ca_name = n\<rparr>,
      commit_timestamp = ''2021-01-01T00:00:00Z'',
      commit_message = ''Fix crash\<newline>\<newline>Details of the fix'',
      commit_url = ''https://github.com/obsproject/obs-studio/commit/'' @ h\<rparr>"

definition example_push :: "commit list \<Rightarrow> push_event" where
  "example_push cs =
     \<lparr>push_ref = ''refs/heads/master'', push_repo_full_name = ''obsproject/obs-studio'',
      push_commits = cs\<rparr>"

definition example_user :: user_block where
  "example_user =
     \<lparr>user_login = ''alice'', user_html_url = ''https://github.com/alice'',
      user_avatar_url = ''https://avatars.githubusercontent.com/u/1''\<rparr>"

definition example_pr :: "string option \<Rightarrow> pr_event" where
  "example_pr b =
     \<lparr>pr_number = 17, pr_title = ''Add feature'', pr_created_at = ''2021-01-01T00:00:00Z'',
      pr_html_url = ''https://github.com/obsproject/obs-studio/pull/17'', pr_user = example_user,
      pr_body = b, pr_repo_full_name = ''obsproject/obs-studio''\<rparr>"

definition example_issue :: "string option \<Rightarrow> issue_event" where
  "example_issue b =
     \<lparr>issue_number = 18, issue_title = ''Crash on start'',
      issue_created_at = ''2021-01-01T00:00:00Z'',
      issue_html_url = ''https://github.com/obsproject/obs-studio/issues/18'',
      issue_user = example_user, issue_body = b,
      issue_repo_full_name = ''obsproject/obs-studio''\<rparr>"

text \<open>
  An artifact as the artifacts endpoint lists it: a dict with an \<open>id\<close> that \<open>str\<close> prints
  and a \<open>name\<close> that is a string. \<open>stored_artifact\<close> is the artifact after line 188 gave it
  its download url, \<open>artifact_entry\<close> the markdown link of line 197, and \<open>slot_write\<close> what
  lines 192 to 195 do to the slots for one artifact.
\<close>

definition wf_artifact :: "json \<Rightarrow> bool" where
  "wf_artifact a =
     (case getitem a ''id'' of
        Inl e \<Rightarrow> False
      | Inr aid \<Rightarrow>
          (case py_str aid of
             Inl e \<Rightarrow> False
           | Inr s \<Rightarrow> (case getitem a ''name'' of Inr (JStr nm) \<Rightarrow> True | _ \<Rightarrow> False)))"

definition artifact_name :: "json \<Rightarrow> string" where
  "artifact_name a = (case getitem a ''name'' of Inr (JStr nm) \<Rightarrow> nm | _ \<Rightarrow> [])"

definition artifact_id_str :: "json \<Rightarrow> string" where
  "artifact_id_str a =
     (case getitem a ''id'' of
        Inl e \<Rightarrow> []
      | Inr aid \<Rightarrow> (case py_str aid of Inl e \<Rightarrow> [] | Inr s \<Rightarrow> s))"

definition stored_artifact :: "int \<Rightarrow> json \<Rightarrow> json" where
  "stored_artifact csid a =
     (case setitem a ''archive_download_url'' (download_url csid (artifact_id_str a)) of
        Inl e \<Rightarrow> a
      | Inr a' \<Rightarrow> a')"

definition artifact_entry :: "int \<Rightarrow> json \<Rightarrow> string" where
  "artifact_entry csid a =
     ''['' @ artifact_name a @ '']('' @ ''https://github.com/obsproject/obs-studio/suites/''
       @ str_int csid @ ''/artifacts/'' @ artifact_id_str a @ '')''"

definition slot_write :: "int \<Rightarrow> (string \<rightharpoonup> json) \<Rightarrow> json \<Rightarrow> (string \<rightharpoonup> json)" where
  "slot_write csid st a =
     (if contains ''macOS'' (artifact_name a) then st(''nightly_macos'' \<mapsto> stored_artifact csid a)
      else if contains ''win64'' (artifact_name a)
      then st(''nightly_windows'' \<mapsto> stored_artifact csid a)
      else st)"

text \<open>
  What the users endpoint answers for a login that has no account (status 404), and a
  profile as it answers for the account whose login is the word \<open>None\<close>, which has no
  display name.
\<close>

definition not_found_body :: json where
  "not_found_body =
     JDict [(''message'', JStr ''Not Found''),
            (''documentation_url'', JStr ''https://docs.github.com/rest/users/users#get-a-user''),
            (''status'', JStr ''404'')]"

definition none_profile :: json where
  "none_profile =
     JDict [(''login'', JStr ''None''), (''name'', JNull),
            (''html_url'', JStr ''https://github.com/None''),
            (''avatar_url'', JStr ''https://avatars.githubusercontent.com/u/2'')]"

section \<open>Properties of get\_with\_retry\<close>

lemma get_with_retry_all_fail:
  "\<forall>r \<in> set (take n (responses w)). checked_json r = None \<Longrightarrow>
   get_with_retry cfg (JStr u) params n iv w =
     (JNull, w\<lparr>responses := drop n (responses w),
               clock := clock w + int n * iv,
               trace := trace w @ concat (replicate n (failed_attempt u params (github_api_auth cfg) iv))
                  @ [LogError ''Retries exhausted!'']\<rparr>)"
proof (induction n arbitrary: w)
  case 0
  then show ?case by (simp add: emit_def)
next
  case (Suc n)
  show ?case
  proof (cases "responses w")
    case Nil
    then show ?thesis
      using Suc.IH[of "sleep iv (emit (LogWarning ''Github API request failed'')
                         (emit (HttpGet u params (github_api_auth cfg)) w))"]
      by (simp add: emit_def sleep_def failed_attempt_def algebra_simps)
  next
    case (Cons r rs)
    then show ?thesis
      using Suc.prems
        Suc.IH[of "sleep iv (emit (LogWarning ''Github API request failed'')
                     ((emit (HttpGet u params (github_api_auth cfg)) w)\<lparr>responses := rs\<rparr>))"]
      by (simp add: emit_def sleep_def failed_attempt_def algebra_simps)
  qed
qed

lemma get_with_retry_succeeds:
  "responses w = fails @ ok # rest \<Longrightarrow>
   \<forall>r \<in> set fails. checked_json r = None \<Longrightarrow> checked_json ok = Some body \<Longrightarrow>
   length fails < n \<Longrightarrow>
   get_with_retry cfg (JStr u) params n iv w =
     (body, w\<lparr>responses := rest,
               clock := clock w + int (length fails) * iv,
               trace := trace w
                  @ concat (replicate (length fails) (failed_attempt u params (github_api_auth cfg) iv))
                  @ [HttpGet u params (github_api_auth cfg)]\<rparr>)"
proof (induction fails arbitrary: w n)
  case Nil
  then obtain m where "n = Suc m" by (cases n) auto
  with Nil show ?case by (simp add: emit_def)
next
  case (Cons r fails)
  then obtain m where n: "n = Suc m" by (cases n) auto
  show ?case
    using Cons.prems n
      Cons.IH[of "sleep iv (emit (LogWarning ''Github API request failed'')
                    ((emit (HttpGet u params (github_api_auth cfg)) w)
                       \<lparr>responses := fails @ ok # rest\<rparr>))" m]
    by (simp add: emit_def sleep_def failed_attempt_def algebra_simps)
qed

lemma gets_of_failed_attempts:
  "length (filter is_get (concat (replicate k (failed_attempt u params auth iv)))) = k"
  by (induction k) (simp_all add: failed_attempt_def is_get_def)

lemma sleeps_of_failed_attempts:
  "length (filter (is_sleep iv) (concat (replicate k (failed_attempt u params auth iv)))) = k"
  by (induction k) (simp_all add: failed_attempt_def is_sleep_def)

text \<open>
  C2. With \<open>n\<close> retries configured: when every attempt fails (the next \<open>n\<close> answers of the
  network are failures, or the network stops answering), the trace grows by exactly \<open>n\<close>
  rounds of GET, warning and sleep of the configured interval, then the error log, and
  the result is \<open>None\<close>. When the first \<open>k < n\<close> answers are failures and the next one is a
  success with body \<open>body\<close>, the result is \<open>body\<close> after \<open>k\<close> such rounds and one more GET:
  \<open>k + 1\<close> GETs in all.
\<close>

theorem get_with_retry_attempts:
  "((\<forall>r \<in> set (take n (responses w)). checked_json r = None) \<longrightarrow>
      fst (get_with_retry cfg (JStr u) params n iv w) = JNull
      \<and> trace (snd (get_with_retry cfg (JStr u) params n iv w)) =
          trace w @ concat (replicate n (failed_attempt u params (github_api_auth cfg) iv))
            @ [LogError ''Retries exhausted!'']
      \<and> length (filter is_get (trace (snd (get_with_retry cfg (JStr u) params n iv w)))) =
          length (filter is_get (trace w)) + n
      \<and> length (filter (is_sleep iv) (trace (snd (get_with_retry cfg (JStr u) params n iv w)))) =
          length (filter (is_sleep iv) (trace w)) + n)
   \<and> (responses w = fails @ ok # rest \<and> (\<forall>r \<in> set fails. checked_json r = None)
        \<and> checked_json ok = Some body \<and> length fails < n \<longrightarrow>
      fst (get_with_retry cfg (JStr u) params n iv w) = body
      \<and> trace (snd (get_with_retry cfg (JStr u) params n iv w)) =
          trace w @ concat (replicate (length fails) (failed_attempt u params (github_api_auth cfg) iv))
            @ [HttpGet u params (github_api_auth cfg)]
      \<and> length (filter is_get (trace (snd (get_with_retry cfg (JStr u) params n iv w)))) =
          length (filter is_get (trace w)) + length fails + 1)"
proof (intro conjI impI)
  assume a: "\<forall>r \<in> set (take n (responses w)). checked_json r = None"
  note eq = get_with_retry_all_fail[OF a, of cfg u params iv]
  show "fst (get_with_retry cfg (JStr u) params n iv w) = JNull"
    by (simp add: eq)
  show "trace (snd (get_with_retry cfg (JStr u) params n iv w)) =
          trace w @ concat (replicate n (failed_attempt u params (github_api_auth cfg) iv))
            @ [LogError ''Retries exhausted!'']"
    by (simp add: eq)
  show "length (filter is_get (trace (snd (get_with_retry cfg (JStr u) params n iv w)))) =
          length (filter is_get (trace w)) + n"
    by (simp add: eq gets_of_failed_attempts) (simp add: is_get_def)
  show "length (filter (is_sleep iv) (trace (snd (get_with_retry cfg (JStr u) params n iv w)))) =
          length (filter (is_sleep iv) (trace w)) + n"
    by (simp add: eq sleeps_of_failed_attempts) (simp add: is_sleep_def)
next
  assume b: "responses w = fails @ ok # rest \<and> (\<forall>r \<in> set fails. checked_json r = None)
        \<and> checked_json ok = Some body \<and> length fails < n"
  then have eq: "get_with_retry cfg (JStr u) params n iv w =
     (body, w\<lparr>responses := rest,
               clock := clock w + int (length fails) * iv,
               trace := trace w
                  @ concat (replicate (length fails) (failed_attempt u params (github_api_auth cfg) iv))
                  @ [HttpGet u params (github_api_auth cfg)]\<rparr>)"
    using get_with_retry_succeeds[of w fails ok rest body n cfg u params iv] by blast
  show "fst (get_with_retry cfg (JStr u) params n iv w) = body"
    by (simp add: eq)
  show "trace (snd (get_with_retry cfg (JStr u) params n iv w)) =
          trace w @ concat (replicate (length fails) (failed_attempt u params (github_api_auth cfg) iv))
            @ [HttpGet u params (github_api_auth cfg)]"
    by (simp add: eq)
  show "length (filter is_get (trace (snd (get_with_retry cfg (JStr u) params n iv w)))) =
          length (filter is_get (trace w)) + length fails + 1"
    by (simp add: eq gets_of_failed_attempts) (simp add: is_get_def)
qed

theorem get_with_retry_attempts_witness:
  "fst (get_with_retry example_config (JStr ''https://example.org/x'') None default_retries
          default_retry_interval (example_world [NoResponse, Response 503 (Some JNull)])) = JNull
   \<and> length (filter is_get (trace (snd (get_with_retry example_config (JStr ''https://example.org/x'')
          None default_retries default_retry_interval
          (example_world [NoResponse, Response 503 (Some JNull)]))))) = 5
   \<and> fst (get_with_retry example_config (JStr ''https://example.org/x'') None default_retries
          default_retry_interval
          (example_world [NoResponse, Response 500 None, Response 200 (Some (JStr ''ok''))])) = JStr ''ok''
   \<and> length (filter is_get (trace (snd (get_with_retry example_config (JStr ''https://example.org/x'')
          None default_retries default_retry_interval
          (example_world [NoResponse, Response 500 None, Response 200 (Some (JStr ''ok''))]))))) = 3"
proof -
  let ?w1 = "example_world [NoResponse, Response 503 (Some JNull)]"
  let ?w2 = "example_world [NoResponse, Response 500 None, Response 200 (Some (JStr ''ok''))]"
  have h1: "\<forall>r \<in> set (take default_retries (responses ?w1)). checked_json r = None"
    by (simp add: example_world_def default_retries_def)
  have h2: "responses ?w2 = [NoResponse, Response 500 None] @ Response 200 (Some (JStr ''ok'')) # []
            \<and> (\<forall>r \<in> set [NoResponse, Response 500 None]. checked_json r = None)
            \<and> checked_json (Response 200 (Some (JStr ''ok''))) = Some (JStr ''ok'')
            \<and> length [NoResponse, Response 500 None] < default_retries"
    by (simp add: example_world_def default_retries_def)
  note t1 = get_with_retry_attempts[THEN conjunct1, THEN mp, OF h1,
              of example_config "''https://example.org/x''" None default_retry_interval]
  note t2 = get_with_retry_attempts[THEN conjunct2, THEN mp, OF h2,
              of example_config "''https://example.org/x''" None default_retry_interval]
  show ?thesis
    using t1[THEN conjunct1] t1[THEN conjunct2, THEN conjunct2, THEN conjunct1]
          t2[THEN conjunct1] t2[THEN conjunct2, THEN conjunct2]
    by (simp add: example_world_def default_retries_def)
qed

text \<open>
  C7. The claim fails: a request that succeeds at once with a JSON \<open>null\<close> body returns
  \<open>None\<close>, the same value the exhausted loop returns.
\<close>

theorem failure_signal_is_null_counterexample:
  "fst (get_with_retry example_config (JStr ''https://example.org/x'') None default_retries
          default_retry_interval (example_world [Response 200 (Some JNull)])) = JNull
   \<and> trace (snd (get_with_retry example_config (JStr ''https://example.org/x'') None default_retries
          default_retry_interval (example_world [Response 200 (Some JNull)])))
       = [HttpGet ''https://example.org/x'' None ''token abc'']
   \<and> fst (get_with_retry example_config (JStr ''https://example.org/x'') None default_retries
          default_retry_interval (example_world [])) = JNull"
  by (simp add: default_retries_def eval_nat_numeral example_world_def emit_def sleep_def
        example_config_def)

text \<open>
  C7, amended. A call that succeeds returns the body of the successful answer, and that
  value equals the failure signal of an exhausted call exactly when the body is \<open>None\<close>:
  every payload other than \<open>null\<close> is told apart from the failure.
\<close>

theorem failure_signal_equals_only_null:
  "(\<forall>r \<in> set (take n' (responses w0)). checked_json r = None)
   \<and> responses w = fails @ ok # rest \<and> (\<forall>r \<in> set fails. checked_json r = None)
   \<and> checked_json ok = Some body \<and> length fails < n \<longrightarrow>
   fst (get_with_retry cfg (JStr u) params n iv w) = body
   \<and> (fst (get_with_retry cfg (JStr u) params n iv w)
        = fst (get_with_retry cfg' (JStr u') params' n' iv' w0)) = (body = JNull)"
  by (auto simp: get_with_retry_all_fail get_with_retry_succeeds)

theorem failure_signal_equals_only_null_witness:
  "fst (get_with_retry example_config (JStr ''https://example.org/x'') None default_retries
          default_retry_interval (example_world [NoResponse, Response 200 (Some (JList []))]))
     = JList []
   \<and> fst (get_with_retry example_config (JStr ''https://example.org/x'') None default_retries
          default_retry_interval (example_world [NoResponse, Response 200 (Some (JList []))]))
     \<noteq> fst (get_with_retry example_config (JStr ''https://example.org/y'') None default_retries
          default_retry_interval (example_world []))"
proof -
  have h: "(\<forall>r \<in> set (take default_retries (responses (example_world []))). checked_json r = None)
     \<and> responses (example_world [NoResponse, Response 200 (Some (JList []))])
         = [NoResponse] @ Response 200 (Some (JList [])) # []
     \<and> (\<forall>r \<in> set [NoResponse]. checked_json r = None)
     \<and> checked_json (Response 200 (Some (JList []))) = Some (JList [])
     \<and> length [NoResponse] < default_retries"
    by (simp add: example_world_def default_retries_def)
  from failure_signal_equals_only_null[THEN mp, OF h,
         of example_config "''https://example.org/x''" None default_retry_interval
            example_config "''https://example.org/y''" None default_retry_interval]
  show ?thesis by auto
qed

section \<open>Properties of get\_author\_info\<close>

text \<open>
  C1. The code at a cache entry that is 10 seconds old, and at one that is 700000 seconds
  old (more than the 604800 seconds of \<open>user_cache_max_age\<close>). The young entry is not
  returned: a GET is issued and its answer replaces the entry. The old entry is returned
  as it is, with no request. The comparison in line 227 is the wrong way round.
\<close>

theorem get_author_info_fresh_entry_refetched:
  "fst (get_author_info example_config (Some ''alice'')
          (cached_world 10 [Response 200 (Some (JDict [(''login'', JStr ''alice'')]))]))
     = Inr (JDict [(''login'', JStr ''alice''), (''_timestamp'', JNum 1700000000)])
   \<and> trace (snd (get_author_info example_config (Some ''alice'')
          (cached_world 10 [Response 200 (Some (JDict [(''login'', JStr ''alice'')]))])))
     = [HttpGet ''https://api.github.com/users/alice'' None ''token abc'']
   \<and> fst (get_author_info example_config (Some ''alice'')
          (cached_world 700000 [Response 200 (Some (JDict [(''login'', JStr ''alice'')]))]))
     = Inr (example_profile ''Alice'' (1700000000 - 700000))
   \<and> trace (snd (get_author_info example_config (Some ''alice'')
          (cached_world 700000 [Response 200 (Some (JDict [(''login'', JStr ''alice'')]))])))
     = []"
  by (simp add: get_author_info_def cached_entry_def cached_world_def example_world_def
        example_profile_def example_config_def user_cache_max_age_def bind_def user_url_def
        emit_def Let_def)

section \<open>Properties of get\_ci\_results\<close>

lemma get_with_retry_frame:
  "state (snd (get_with_retry cfg url params n iv w)) = state w
   \<and> user_cache (snd (get_with_retry cfg url params n iv w)) = user_cache w"
proof (induction n arbitrary: w)
  case 0
  then show ?case by (simp add: emit_def)
next
  case (Suc n)
  show ?case
  proof (cases url)
    case (JStr u)
    then show ?thesis using Suc.IH
      by (cases "responses w") (auto simp: emit_def sleep_def split: option.splits)
  qed (use Suc.IH in \<open>auto simp: emit_def sleep_def\<close>)
qed

lemma getitem_truthy: "getitem x k = Inr v \<Longrightarrow> truthy x"
  by (cases x) (auto split: option.splits)

lemma find_run_no_match:
  "\<forall>run \<in> set rs. \<exists>v. getitem run ''check_suite_id'' = Inr v \<and> \<not> py_eq v (JNum csid) \<Longrightarrow>
   find_run rs csid = Inr None"
  by (induction rs) (auto simp: bind_def)

lemma emit_state: "state (emit e w) = state w"
  by (simp add: emit_def)

lemma ci_runs_failed:
  assumes "\<not> truthy (fst (fetch_runs cfg w))"
  shows "get_ci_results cfg parse ev w =
           (Inr None, emit (LogError ''Getting GitHub workflow runs failed.'')
                        (snd (fetch_runs cfg w)))"
  using assms by (simp add: get_ci_results_def case_prod_beta)

lemma ci_run_not_found:
  assumes "getitem (fst (fetch_runs cfg w)) ''workflow_runs'' = Inr wr" and "py_iter wr = Inr rs"
    and "find_run rs (check_suite_id ev) = Inr None"
  shows "get_ci_results cfg parse ev w =
           (Inr None, emit (LogError ''Could not find check suite id in workflow runs failed.'')
                        (snd (fetch_runs cfg w)))"
  using assms getitem_truthy[OF assms(1)]
  by (simp add: get_ci_results_def bind_def case_prod_beta)

lemma ci_jobs_failed:
  assumes "getitem (fst (fetch_runs cfg w)) ''workflow_runs'' = Inr wr" and "py_iter wr = Inr rs"
    and "find_run rs (check_suite_id ev) = Inr (Some run)"
    and "run_metadata parse run = Inr info" and "getitem run ''jobs_url'' = Inr jobs_url"
    and "\<not> truthy (fst (fetch cfg jobs_url (snd (fetch_runs cfg w))))"
  shows "get_ci_results cfg parse ev w =
           (Inr None, emit (LogError ''Getting GitHub workflow run jobs failed.'')
                        (snd (fetch cfg jobs_url (snd (fetch_runs cfg w)))))"
  using assms getitem_truthy[OF assms(1)]
  by (simp add: get_ci_results_def bind_def case_prod_beta)

lemma ci_artifacts_failed:
  assumes "getitem (fst (fetch_runs cfg w)) ''workflow_runs'' = Inr wr" and "py_iter wr = Inr rs"
    and "find_run rs (check_suite_id ev) = Inr (Some run)"
    and "run_metadata parse run = Inr info" and "getitem run ''jobs_url'' = Inr jobs_url"
    and "truthy (fst (fetch cfg jobs_url (snd (fetch_runs cfg w))))"
    and "summarise_jobs cfg (ri_minutes info) (ri_seconds info)
           (fst (fetch cfg jobs_url (snd (fetch_runs cfg w)))) = Inr summary"
    and "getitem run ''artifacts_url'' = Inr artifacts_url"
    and "\<not> truthy (fst (fetch cfg artifacts_url (snd (fetch cfg jobs_url (snd (fetch_runs cfg w))))))"
  shows "get_ci_results cfg parse ev w =
           (Inr None, emit (LogError ''Getting GitHub workflow run artifacts failed.'')
                        (snd (fetch cfg artifacts_url (snd (fetch cfg jobs_url (snd (fetch_runs cfg w)))))))"
  using assms getitem_truthy[OF assms(1)]
  by (simp add: get_ci_results_def bind_def case_prod_beta)

text \<open>
  C6. The four ways \<open>get_ci_results\<close> gives up. When the fetch of the runs returns
  \<open>None\<close>; when the runs were fetched and no run has the check suite id of the event;
  when the run was found, its metadata read, and the fetch of its jobs returns \<open>None\<close>;
  when the jobs were summarised and the fetch of the artifacts returns \<open>None\<close>: the call
  raises nothing and returns \<open>None\<close>, the last thing it does is log the error, and
  \<open>self.state\<close> is what it was before the call.
\<close>

theorem get_ci_results_failures_return_none:
  "(fst (fetch_runs cfg w) = JNull \<longrightarrow>
      get_ci_results cfg parse ev w =
        (Inr None, emit (LogError ''Getting GitHub workflow runs failed.'') (snd (fetch_runs cfg w)))
      \<and> state (snd (get_ci_results cfg parse ev w)) = state w)
   \<and> (getitem (fst (fetch_runs cfg w)) ''workflow_runs'' = Inr wr \<and> py_iter wr = Inr rs
        \<and> (\<forall>run \<in> set rs. \<exists>v. getitem run ''check_suite_id'' = Inr v
                \<and> \<not> py_eq v (JNum (check_suite_id ev))) \<longrightarrow>
      get_ci_results cfg parse ev w =
        (Inr None, emit (LogError ''Could not find check suite id in workflow runs failed.'')
                     (snd (fetch_runs cfg w)))
      \<and> state (snd (get_ci_results cfg parse ev w)) = state w)
   \<and> (getitem (fst (fetch_runs cfg w)) ''workflow_runs'' = Inr wr \<and> py_iter wr = Inr rs
        \<and> find_run rs (check_suite_id ev) = Inr (Some run)
        \<and> run_metadata parse run = Inr info \<and> getitem run ''jobs_url'' = Inr jobs_url
        \<and> fst (fetch cfg jobs_url (snd (fetch_runs cfg w))) = JNull \<longrightarrow>
      get_ci_results cfg parse ev w =
        (Inr None, emit (LogError ''Getting GitHub workflow run jobs failed.'')
                     (snd (fetch cfg jobs_url (snd (fetch_runs cfg w)))))
      \<and> state (snd (get_ci_results cfg parse ev w)) = state w)
   \<and> (getitem (fst (fetch_runs cfg w)) ''workflow_runs'' = Inr wr \<and> py_iter wr = Inr rs
        \<and> find_run rs (check_suite_id ev) = Inr (Some run)
        \<and> run_metadata parse run = Inr info \<and> getitem run ''jobs_url'' = Inr jobs_url
        \<and> truthy (fst (fetch cfg jobs_url (snd (fetch_runs cfg w))))
        \<and> summarise_jobs cfg (ri_minutes info) (ri_seconds info)
              (fst (fetch cfg jobs_url (snd (fetch_runs cfg w)))) = Inr summary
        \<and> getitem run ''artifacts_url'' = Inr artifacts_url
        \<and> fst (fetch cfg artifacts_url (snd (fetch cfg jobs_url (snd (fetch_runs cfg w))))) = JNull \<longrightarrow>
      get_ci_results cfg parse ev w =
        (Inr None, emit (LogError ''Getting GitHub workflow run artifacts failed.'')
                     (snd (fetch cfg artifacts_url (snd (fetch cfg jobs_url (snd (fetch_runs cfg w)))))))
      \<and> state (snd (get_ci_results cfg parse ev w)) = state w)"
proof (intro conjI impI)
  assume a: "fst (fetch_runs cfg w) = JNull"
  then have "\<not> truthy (fst (fetch_runs cfg w))" by simp
  from ci_runs_failed[OF this, of parse ev]
  show "get_ci_results cfg parse ev w =
        (Inr None, emit (LogError ''Getting GitHub workflow runs failed.'') (snd (fetch_runs cfg w)))"
    and "state (snd (get_ci_results cfg parse ev w)) = state w"
    by (simp_all add: emit_state get_with_retry_frame)
next
  assume a: "getitem (fst (fetch_runs cfg w)) ''workflow_runs'' = Inr wr \<and> py_iter wr = Inr rs
        \<and> (\<forall>run \<in> set rs. \<exists>v. getitem run ''check_suite_id'' = Inr v
                \<and> \<not> py_eq v (JNum (check_suite_id ev)))"
  then have "find_run rs (check_suite_id ev) = Inr None"
    by (simp add: find_run_no_match)
  with a ci_run_not_found[of cfg w wr rs ev parse]
  show "get_ci_results cfg parse ev w =
        (Inr None, emit (LogError ''Could not find check suite id in workflow runs failed.'')
                     (snd (fetch_runs cfg w)))"
    and "state (snd (get_ci_results cfg parse ev w)) = state w"
    by (simp_all add: emit_state get_with_retry_frame)
next
  assume a: "getitem (fst (fetch_runs cfg w)) ''workflow_runs'' = Inr wr \<and> py_iter wr = Inr rs
        \<and> find_run rs (check_suite_id ev) = Inr (Some run)
        \<and> run_metadata parse run = Inr info \<and> getitem run ''jobs_url'' = Inr jobs_url
        \<and> fst (fetch cfg jobs_url (snd (fetch_runs cfg w))) = JNull"
  then have "\<not> truthy (fst (fetch cfg jobs_url (snd (fetch_runs cfg w))))" by simp
  with a ci_jobs_failed[of cfg w wr rs ev run parse info jobs_url]
  show "get_ci_results cfg parse ev w =
        (Inr None, emit (LogError ''Getting GitHub workflow run jobs failed.'')
                     (snd (fetch cfg jobs_url (snd (fetch_runs cfg w)))))"
    and "state (snd (get_ci_results cfg parse ev w)) = state w"
    by (simp_all add: emit_state get_with_retry_frame)
next
  assume a: "getitem (fst (fetch_runs cfg w)) ''workflow_runs'' = Inr wr \<and> py_iter wr = Inr rs
        \<and> find_run rs (check_suite_id ev) = Inr (Some run)
        \<and> run_metadata parse run = Inr info \<and> getitem run ''jobs_url'' = Inr jobs_url
        \<and> truthy (fst (fetch cfg jobs_url (snd (fetch_runs cfg w))))
        \<and> summarise_jobs cfg (ri_minutes info) (ri_seconds info)
              (fst (fetch cfg jobs_url (snd (fetch_runs cfg w)))) = Inr summary
        \<and> getitem run ''artifacts_url'' = Inr artifacts_url
        \<and> fst (fetch cfg artifacts_url (snd (fetch cfg jobs_url (snd (fetch_runs cfg w))))) = JNull"
  then have "\<not> truthy (fst (fetch cfg artifacts_url (snd (fetch cfg jobs_url (snd (fetch_runs cfg w))))))"
    by simp
  with a ci_artifacts_failed[of cfg w wr rs ev run parse info jobs_url summary artifacts_url]
  show "get_ci_results cfg parse ev w =
        (Inr None, emit (LogError ''Getting GitHub workflow run artifacts failed.'')
                     (snd (fetch cfg artifacts_url (snd (fetch cfg jobs_url (snd (fetch_runs cfg w)))))))"
    and "state (snd (get_ci_results cfg parse ev w)) = state w"
    by (simp_all add: emit_state get_with_retry_frame)
qed

text \<open>The unfoldings that evaluate the examples.\<close>

lemmas eval_defs = default_retries_def default_retry_interval_def eval_nat_numeral example_world_def
  emit_def sleep_def example_config_def runs_url_def runs_params_def bind_def example_parse_def
  example_run_def example_runs_def example_job_def example_jobs_def example_artifact_def
  example_artifacts_def example_event_def

theorem get_ci_results_failures_return_none_witness:
  "fst (get_ci_results example_config example_parse (example_event 42) (example_world [])) = Inr None
   \<and> fst (get_ci_results example_config example_parse (example_event 41)
            (example_world [Response 200 (Some (example_runs ''master''))])) = Inr None
   \<and> fst (get_ci_results example_config example_parse (example_event 42)
            (example_world [Response 200 (Some (example_runs ''master''))])) = Inr None
   \<and> fst (get_ci_results example_config example_parse (example_event 42)
            (example_world [Response 200 (Some (example_runs ''master'')),
               Response 200 (Some (example_jobs [example_job ''macOS'' ''success'']))])) = Inr None"
proof -
  let ?wa = "example_world []"
  let ?wb = "example_world [Response 200 (Some (example_runs ''master''))]"
  let ?wd = "example_world [Response 200 (Some (example_runs ''master'')),
               Response 200 (Some (example_jobs [example_job ''macOS'' ''success'']))]"
  let ?info = "\<lparr>ri_commit_hash = JStr ''abc123'', ri_finished = 1609459805, ri_minutes = 10,
           ri_seconds = 5, ri_repo = JStr ''obsproject/obs-studio'', ri_branch = JStr ''master'',
           ri_web_url = JStr ''https://github.com/obsproject/obs-studio/actions/runs/7''\<rparr>"
  have fa: "fst (fetch_runs example_config ?wa) = JNull"
    by (simp add: eval_defs)
  have fb: "fetch_runs example_config ?wb =
              (example_runs ''master'',
               (example_world [])\<lparr>trace := [HttpGet (runs_url example_config) runs_params ''token abc'']\<rparr>)"
    by (simp add: eval_defs)
  have fd: "fetch_runs example_config ?wd =
              (example_runs ''master'',
               (example_world [Response 200 (Some (example_jobs [example_job ''macOS'' ''success'']))])
                 \<lparr>trace := [HttpGet (runs_url example_config) runs_params ''token abc'']\<rparr>)"
    by (simp add: eval_defs)
  have meta: "run_metadata example_parse (example_run ''master'') = Inr ?info"
    by (simp add: run_metadata_def eval_defs)
  have wr: "getitem (example_runs ''master'') ''workflow_runs'' = Inr (JList [example_run ''master''])"
    by (simp add: example_runs_def)
  have ju: "getitem (example_run ''master'') ''jobs_url'' = Inr (JStr ''https://api.github.com/jobs'')"
    and au: "getitem (example_run ''master'') ''artifacts_url'' = Inr (JStr ''https://api.github.com/artifacts'')"
    by (simp_all add: example_run_def)
  have hb: "getitem (fst (fetch_runs example_config ?wb)) ''workflow_runs'' = Inr (JList [example_run ''master''])
        \<and> py_iter (JList [example_run ''master'']) = Inr [example_run ''master'']
        \<and> (\<forall>run \<in> set [example_run ''master'']. \<exists>v. getitem run ''check_suite_id'' = Inr v
                \<and> \<not> py_eq v (JNum (check_suite_id (example_event 41))))"
    by (simp add: fb wr) (simp add: example_run_def example_event_def py_eq_def)
  have hc: "getitem (fst (fetch_runs example_config ?wb)) ''workflow_runs'' = Inr (JList [example_run ''master''])
        \<and> py_iter (JList [example_run ''master'']) = Inr [example_run ''master'']
        \<and> find_run [example_run ''master''] (check_suite_id (example_event 42)) = Inr (Some (example_run ''master''))
        \<and> run_metadata example_parse (example_run ''master'') = Inr ?info
        \<and> getitem (example_run ''master'') ''jobs_url'' = Inr (JStr ''https://api.github.com/jobs'')
        \<and> fst (fetch example_config (JStr ''https://api.github.com/jobs'')
                 (snd (fetch_runs example_config ?wb))) = JNull"
    apply (simp add: fb wr meta ju)
    apply (simp add: eval_defs py_eq_def)
    done
  have jobs: "fetch example_config (JStr ''https://api.github.com/jobs'')
                 (snd (fetch_runs example_config ?wd)) =
              (example_jobs [example_job ''macOS'' ''success''],
               (example_world [])\<lparr>trace := [HttpGet (runs_url example_config) runs_params ''token abc'',
                    HttpGet ''https://api.github.com/jobs'' None ''token abc'']\<rparr>)"
    by (simp add: fd) (simp add: eval_defs)
  have summ: "summarise_jobs example_config 10 5 (example_jobs [example_job ''macOS'' ''success''])
            = Inr \<lparr>js_build_success = True, js_colour = ci_passed_colour,
                   js_reaction_emote = ''passed_emote'', js_build_result = ''succeeded'',
                   js_message = [''All jobs succeeded after 10m5s'', ''**Succeeded:** macOS'']\<rparr>"
    by (simp add: summarise_jobs_def example_jobs_def example_job_def bind_def py_join_def
          str_int_def str_nat.simps example_config_def)
  have arts: "fst (fetch example_config (JStr ''https://api.github.com/artifacts'')
              (snd (fetch example_config (JStr ''https://api.github.com/jobs'')
                 (snd (fetch_runs example_config ?wd))))) = JNull"
    by (simp add: jobs) (simp add: eval_defs)
  have fr: "find_run [example_run ''master''] (check_suite_id (example_event 42))
              = Inr (Some (example_run ''master''))"
    by (simp add: example_run_def example_event_def bind_def py_eq_def)
  have tj: "truthy (example_jobs [example_job ''macOS'' ''success''])"
    by (simp add: example_jobs_def)
  have hd: "getitem (fst (fetch_runs example_config ?wd)) ''workflow_runs'' = Inr (JList [example_run ''master''])
        \<and> py_iter (JList [example_run ''master'']) = Inr [example_run ''master'']
        \<and> find_run [example_run ''master''] (check_suite_id (example_event 42)) = Inr (Some (example_run ''master''))
        \<and> run_metadata example_parse (example_run ''master'') = Inr ?info
        \<and> getitem (example_run ''master'') ''jobs_url'' = Inr (JStr ''https://api.github.com/jobs'')
        \<and> truthy (fst (fetch example_config (JStr ''https://api.github.com/jobs'')
                 (snd (fetch_runs example_config ?wd))))
        \<and> summarise_jobs example_config (ri_minutes ?info) (ri_seconds ?info)
              (fst (fetch example_config (JStr ''https://api.github.com/jobs'')
                 (snd (fetch_runs example_config ?wd))))
            = Inr \<lparr>js_build_success = True, js_colour = ci_passed_colour,
                   js_reaction_emote = ''passed_emote'', js_build_result = ''succeeded'',
                   js_message = [''All jobs succeeded after 10m5s'', ''**Succeeded:** macOS'']\<rparr>
        \<and> getitem (example_run ''master'') ''artifacts_url'' = Inr (JStr ''https://api.github.com/artifacts'')
        \<and> fst (fetch example_config (JStr ''https://api.github.com/artifacts'')
              (snd (fetch example_config (JStr ''https://api.github.com/jobs'')
                 (snd (fetch_runs example_config ?wd))))) = JNull"
    apply (simp only: arts fr meta ju au)
    apply (simp add: jobs summ tj)
    apply (simp add: fd wr)
    done
  note t = get_ci_results_failures_return_none
  from t[THEN conjunct1, THEN mp, OF fa, of example_parse "example_event 42"]
  have a: "fst (get_ci_results example_config example_parse (example_event 42) ?wa) = Inr None"
    by simp
  from t[THEN conjunct2, THEN conjunct1, THEN mp, OF hb, of example_parse]
  have b: "fst (get_ci_results example_config example_parse (example_event 41) ?wb) = Inr None"
    by simp
  from t[THEN conjunct2, THEN conjunct2, THEN conjunct1, THEN mp, OF hc]
  have c: "fst (get_ci_results example_config example_parse (example_event 42) ?wb) = Inr None"
    by simp
  from t[THEN conjunct2, THEN conjunct2, THEN conjunct2, THEN mp, OF hd]
  have d: "fst (get_ci_results example_config example_parse (example_event 42) ?wd) = Inr None"
    by simp
  from a b c d show ?thesis by simp
qed

section \<open>Properties of the job summary\<close>

lemma wf_jobD:
  "wf_job j \<Longrightarrow> getitem j ''conclusion'' = Inr (job_conclusion j)
     \<and> getitem j ''name'' = Inr (JStr (job_name j))"
  by (auto simp: wf_job_def job_conclusion_def job_name_def split: sum.splits json.splits)

lemma count_failed_wf:
  "\<forall>j \<in> set js. wf_job j \<Longrightarrow> count_failed js = Inr (length (filter job_failed js))"
  by (induction js) (auto simp: bind_def wf_jobD job_failed_def)

lemma names_where_wf:
  "\<forall>j \<in> set js. wf_job j \<Longrightarrow>
   names_where P js = Inr (map (\<lambda>j. JStr (job_name j)) (filter (\<lambda>j. P (job_conclusion j)) js))"
  by (induction js) (auto simp: bind_def wf_jobD)

lemma as_strs_JStr: "as_strs (map (\<lambda>x. JStr (f x)) xs) = Inr (map f xs)"
  by (induction xs) (auto simp: bind_def)

lemma py_join_JStr: "py_join sep (map (\<lambda>x. JStr (f x)) xs) = Inr (join sep (map f xs))"
  by (simp add: py_join_def as_strs_JStr bind_def)

lemma summarise_jobs_wf:
  assumes "getitem payload ''jobs'' = Inr (JList js)" and "\<forall>j \<in> set js. wf_job j"
  shows "summarise_jobs cfg minutes seconds payload =
     Inr \<lparr>js_build_success = (length (filter job_failed js) = 0),
          js_colour = (if length (filter job_failed js) = 0 then ci_passed_colour
                       else if length (filter job_failed js) < length js then ci_some_failed_colour
                       else ci_failed_colour),
          js_reaction_emote = (if length (filter job_failed js) = 0 then emotes_passed cfg
                       else if length (filter job_failed js) < length js then emotes_partial cfg
                       else emotes_failed cfg),
          js_build_result = (if length (filter job_failed js) = 0 then ''succeeded''
                       else if length (filter job_failed js) < length js then ''partially failed''
                       else ''failed''),
          js_message =
            [summary_line (length (filter job_failed js)) (length js) minutes seconds]
            @ (if filter (\<lambda>j. \<not> job_failed j) js \<noteq> []
               then [''**Succeeded:** '' @ join '', '' (map job_name (filter (\<lambda>j. \<not> job_failed j) js))]
               else [])
            @ (if filter job_failed js \<noteq> []
               then [''**Failed:** '' @ join '', '' (map job_name (filter job_failed js))]
               else [])\<rparr>"
proof -
  have nf: "names_where (\<lambda>c. c \<noteq> JStr ''success'') js = Inr (map (\<lambda>j. JStr (job_name j)) (filter job_failed js))"
    using names_where_wf[OF assms(2), of "\<lambda>c. c \<noteq> JStr ''success''"]
    by (simp add: job_failed_def[abs_def])
  have ns: "names_where (\<lambda>c. c = JStr ''success'') js = Inr (map (\<lambda>j. JStr (job_name j)) (filter (\<lambda>j. \<not> job_failed j) js))"
    using names_where_wf[OF assms(2), of "\<lambda>c. c = JStr ''success''"]
    by (simp add: job_failed_def[abs_def])
  show ?thesis
    by (simp add: summarise_jobs_def assms(1) bind_def count_failed_wf[OF assms(2)] nf ns
          py_join_JStr summary_line_def Let_def)
qed

lemma digit_nth: "k < 10 \<Longrightarrow> is_digit (''0123456789'' ! k)"
  unfolding is_digit_def by (rule nth_mem) simp

lemma str_nat_digits: "str_nat n \<noteq> [] \<and> (\<forall>c \<in> set (str_nat n). is_digit c)"
proof (induction n rule: str_nat.induct)
  case (1 n)
  show ?case
  proof (cases "n < 10")
    case True
    then have "str_nat n = [''0123456789'' ! n]" by (subst str_nat.simps) simp
    then show ?thesis using digit_nth[OF True] by simp
  next
    case False
    then have e: "str_nat n = str_nat (n div 10) @ [''0123456789'' ! (n mod 10)]"
      by (subst str_nat.simps) simp
    have "is_digit (''0123456789'' ! (n mod 10))" by (rule digit_nth) simp
    then show ?thesis using 1[OF False] by (simp add: e)
  qed
qed


lemma is_digit_not: "is_digit c \<Longrightarrow> c \<noteq> CHR ''\<newline>'' \<and> c \<noteq> CHR ''*''"
  by (auto simp: is_digit_def)

lemma str_nat_no_newline: "CHR ''\<newline>'' \<notin> set (str_nat n)"
  using str_nat_digits[of n] is_digit_not by blast

lemma str_int_no_newline: "CHR ''\<newline>'' \<notin> set (str_int i)"
  by (simp add: str_int_def str_nat_no_newline)

lemma summary_line_one_line: "CHR ''\<newline>'' \<notin> set (summary_line f t minutes seconds)"
  by (simp add: summary_line_def str_nat_no_newline str_int_no_newline)

lemma str_nat_hd: "hd (str_nat n) \<noteq> CHR ''*''"
  using str_nat_digits[of n] hd_in_set[of "str_nat n"] is_digit_not by blast

lemma summary_line_hd: "summary_line f t minutes seconds \<noteq> [] \<and> hd (summary_line f t minutes seconds) \<noteq> CHR ''*''"
  using str_nat_digits[of f] str_nat_hd[of f] by (simp add: summary_line_def)

lemma startswith_star: "startswith s (CHR ''*'' # p) \<Longrightarrow> s \<noteq> [] \<and> hd s = CHR ''*''"
  by (cases s) (auto simp: startswith_def)

text \<open>
  C4. The claim fails at the empty job list: there the number of failed jobs equals the
  number of jobs (both 0), and the status is \<open>succeeded\<close>, not \<open>failed\<close>, since the test
  \<open>failed == 0\<close> comes first.
\<close>

theorem no_jobs_counterexample:
  "map_sum id js_build_result (summarise_jobs example_config 10 5 (example_jobs [])) = Inr ''succeeded''
   \<and> length (filter job_failed ([] :: json list)) = length ([] :: json list)"
  by (simp add: summarise_jobs_def example_jobs_def bind_def)

lemma lines_second:
  "\<not> P a \<Longrightarrow> P b \<Longrightarrow> \<not> P c \<Longrightarrow>
   (\<exists>l \<in> set ([a] @ (if A then [b] else []) @ (if B then [c] else [])). P l) = A"
  by auto

lemma lines_third:
  "\<not> P a \<Longrightarrow> \<not> P b \<Longrightarrow> P c \<Longrightarrow>
   (\<exists>l \<in> set ([a] @ (if A then [b] else []) @ (if B then [c] else [])). P l) = B"
  by auto

text \<open>
  C4, amended. For a list of jobs, each with a conclusion and a name, of which \<open>F\<close> have
  a conclusion other than \<open>success\<close> and \<open>T\<close> is the total: \<open>F = 0\<close> gives \<open>succeeded\<close> with
  the passed colour and emote; \<open>0 < F < T\<close> gives \<open>partially failed\<close> with the partial
  colour and emote; \<open>F = T\<close> with at least one job gives \<open>failed\<close> with the failed colour
  and emote. The first message line is the summary line, which holds no newline; a line
  starting with \<open>**Succeeded:**\<close> is among the lines exactly when some job succeeded, a
  line starting with \<open>**Failed:**\<close> exactly when some job failed.
\<close>

theorem summarise_jobs_classification:
  "getitem payload ''jobs'' = Inr (JList js) \<and> (\<forall>j \<in> set js. wf_job j) \<longrightarrow>
   (\<exists>summary. summarise_jobs cfg minutes seconds payload = Inr summary
      \<and> (length (filter job_failed js) = 0 \<longrightarrow>
            js_build_result summary = ''succeeded'' \<and> js_colour summary = ci_passed_colour
            \<and> js_reaction_emote summary = emotes_passed cfg)
      \<and> (0 < length (filter job_failed js) \<and> length (filter job_failed js) < length js \<longrightarrow>
            js_build_result summary = ''partially failed'' \<and> js_colour summary = ci_some_failed_colour
            \<and> js_reaction_emote summary = emotes_partial cfg)
      \<and> (length (filter job_failed js) = length js \<and> 0 < length js \<longrightarrow>
            js_build_result summary = ''failed'' \<and> js_colour summary = ci_failed_colour
            \<and> js_reaction_emote summary = emotes_failed cfg)
      \<and> hd (js_message summary) = summary_line (length (filter job_failed js)) (length js) minutes seconds
      \<and> CHR ''\<newline>'' \<notin> set (hd (js_message summary))
      \<and> ((\<exists>l \<in> set (js_message summary). startswith l ''**Succeeded:** '')
            = (\<exists>j \<in> set js. \<not> job_failed j))
      \<and> ((\<exists>l \<in> set (js_message summary). startswith l ''**Failed:** '')
            = (\<exists>j \<in> set js. job_failed j)))"
proof (intro impI, elim conjE)
  assume p: "getitem payload ''jobs'' = Inr (JList js)" and wf: "\<forall>j \<in> set js. wf_job j"
  note eq = summarise_jobs_wf[OF p wf, of cfg minutes seconds]
  have sf: "\<not> startswith (''**Succeeded:** '' @ x) ''**Failed:** ''"
       "\<not> startswith (''**Failed:** '' @ x) ''**Succeeded:** ''"
       "startswith (''**Succeeded:** '' @ x) ''**Succeeded:** ''"
       "startswith (''**Failed:** '' @ x) ''**Failed:** ''" for x
    by (simp_all add: startswith_def)
  have ex1: "(filter (\<lambda>j. \<not> job_failed j) js \<noteq> []) = (\<exists>j \<in> set js. \<not> job_failed j)"
    by (simp add: filter_empty_conv)
  have ex2: "(filter job_failed js \<noteq> []) = (\<exists>j \<in> set js. job_failed j)"
    by (simp add: filter_empty_conv)
  have m2: "(\<exists>l \<in> set ([summary_line f t minutes seconds]
                 @ (if A then [''**Succeeded:** '' @ x] else [])
                 @ (if B then [''**Failed:** '' @ y] else [])). startswith l ''**Succeeded:** '') = A"
    for f t A B x y
  proof (rule lines_second[where P = "\<lambda>l. startswith l ''**Succeeded:** ''"])
    show "\<not> startswith (summary_line f t minutes seconds) ''**Succeeded:** ''"
      using summary_line_hd startswith_star by blast
  qed (rule sf)+
  have m3: "(\<exists>l \<in> set ([summary_line f t minutes seconds]
                 @ (if A then [''**Succeeded:** '' @ x] else [])
                 @ (if B then [''**Failed:** '' @ y] else [])). startswith l ''**Failed:** '') = B"
    for f t A B x y
  proof (rule lines_third[where P = "\<lambda>l. startswith l ''**Failed:** ''"])
    show "\<not> startswith (summary_line f t minutes seconds) ''**Failed:** ''"
      using summary_line_hd startswith_star by blast
  qed (rule sf)+
  show "\<exists>summary. summarise_jobs cfg minutes seconds payload = Inr summary
      \<and> (length (filter job_failed js) = 0 \<longrightarrow>
            js_build_result summary = ''succeeded'' \<and> js_colour summary = ci_passed_colour
            \<and> js_reaction_emote summary = emotes_passed cfg)
      \<and> (0 < length (filter job_failed js) \<and> length (filter job_failed js) < length js \<longrightarrow>
            js_build_result summary = ''partially failed'' \<and> js_colour summary = ci_some_failed_colour
            \<and> js_reaction_emote summary = emotes_partial cfg)
      \<and> (length (filter job_failed js) = length js \<and> 0 < length js \<longrightarrow>
            js_build_result summary = ''failed'' \<and> js_colour summary = ci_failed_colour
            \<and> js_reaction_emote summary = emotes_failed cfg)
      \<and> hd (js_message summary) = summary_line (length (filter job_failed js)) (length js) minutes seconds
      \<and> CHR ''\<newline>'' \<notin> set (hd (js_message summary))
      \<and> ((\<exists>l \<in> set (js_message summary). startswith l ''**Succeeded:** '')
            = (\<exists>j \<in> set js. \<not> job_failed j))
      \<and> ((\<exists>l \<in> set (js_message summary). startswith l ''**Failed:** '')
            = (\<exists>j \<in> set js. job_failed j))"
    apply (rule exI, rule conjI, rule eq)
    apply (simp only: job_summary.simps)
    apply (intro conjI)
          apply simp
         apply simp
        apply simp
       apply simp
      apply (simp add: summary_line_one_line)
     apply (simp only: m2 ex1)
    apply (simp only: m3 ex2)
    done
qed


lemma example_job_facts:
  "wf_job (example_job nm c)" "job_conclusion (example_job nm c) = JStr c"
  "job_name (example_job nm c) = nm" "job_failed (example_job nm c) = (c \<noteq> ''success'')"
  by (simp_all add: wf_job_def job_conclusion_def job_name_def job_failed_def example_job_def)

theorem summarise_jobs_classification_witness:
  "\<exists>summary. summarise_jobs example_config 10 5
       (example_jobs [example_job ''macOS'' ''success'', example_job ''windows'' ''failure'']) = Inr summary
     \<and> js_build_result summary = ''partially failed''
     \<and> js_colour summary = ci_some_failed_colour
     \<and> js_reaction_emote summary = ''partial_emote''
     \<and> (\<exists>l \<in> set (js_message summary). startswith l ''**Succeeded:** '')
     \<and> (\<exists>l \<in> set (js_message summary). startswith l ''**Failed:** '')"
proof -
  let ?js = "[example_job ''macOS'' ''success'', example_job ''windows'' ''failure'']"
  have h: "getitem (example_jobs ?js) ''jobs'' = Inr (JList ?js) \<and> (\<forall>j \<in> set ?js. wf_job j)"
    by (simp add: example_jobs_def example_job_facts)
  from summarise_jobs_classification[THEN mp, OF h, of example_config 10 5]
  obtain summary where
    s: "summarise_jobs example_config 10 5 (example_jobs ?js) = Inr summary"
    and p: "0 < length (filter job_failed ?js) \<and> length (filter job_failed ?js) < length ?js \<longrightarrow>
            js_build_result summary = ''partially failed'' \<and> js_colour summary = ci_some_failed_colour
            \<and> js_reaction_emote summary = emotes_partial example_config"
    and l2: "(\<exists>l \<in> set (js_message summary). startswith l ''**Succeeded:** '')
            = (\<exists>j \<in> set ?js. \<not> job_failed j)"
    and l3: "(\<exists>l \<in> set (js_message summary). startswith l ''**Failed:** '')
            = (\<exists>j \<in> set ?js. job_failed j)"
    by blast
  have "js_build_result summary = ''partially failed'' \<and> js_colour summary = ci_some_failed_colour
            \<and> js_reaction_emote summary = ''partial_emote''"
    using p by (simp add: example_job_facts example_config_def)
  moreover have "\<exists>l \<in> set (js_message summary). startswith l ''**Succeeded:** ''"
    using l2 by (simp add: example_job_facts)
  moreover have "\<exists>l \<in> set (js_message summary). startswith l ''**Failed:** ''"
    using l3 by (simp add: example_job_facts)
  ultimately show ?thesis using s by blast
qed




section \<open>Properties of the nightly state\<close>

lemma map_of_dict_set:
  "map_of (dict_set k v d) k' = (if k' = k then Some v else map_of d k')"
  by (induction d) auto

lemma py_eq_JStr: "py_eq x (JStr s) = (x = JStr s)"
  by (cases x) (auto simp: py_eq_def)

lemma update_nightly_frame:
  "\<not> (bs \<and> br = JStr ''master'') \<Longrightarrow> update_nightly bs br a st = Inr st"
  by (auto simp: update_nightly_def py_eq_JStr)

lemma artifact_step_frame:
  "\<not> (bs \<and> br = JStr ''master'') \<Longrightarrow> state (snd (artifact_step bs br csid a w)) = state w"
  by (auto simp: artifact_step_def update_nightly_frame split: sum.splits)

lemma artifacts_loop_frame:
  "\<not> (bs \<and> br = JStr ''master'') \<Longrightarrow>
   state (snd (artifacts_loop bs br csid arts acc w)) = state w"
proof (induction arts arbitrary: acc w)
  case Nil
  then show ?case by simp
next
  case (Cons a arts)
  obtain r w1 where s: "artifact_step bs br csid a w = (r, w1)"
    by (cases "artifact_step bs br csid a w")
  have "state w1 = state w"
    using artifact_step_frame[OF Cons.prems, of csid a w] s by simp
  then show ?case
    using Cons.IH[OF Cons.prems] s by (cases r) simp_all
qed

lemma artifact_step_state:
  assumes "map_of d ''id'' = Some aid" and "py_str aid = Inr s"
    and "map_of d ''name'' = Some (JStr nm)"
  shows "state (snd (artifact_step True (JStr ''master'') csid (JDict d) w)) =
     (if contains ''macOS'' nm
      then (state w)(''nightly_macos'' \<mapsto>
              JDict (dict_set ''archive_download_url'' (download_url csid s) d))
      else if contains ''win64'' nm
      then (state w)(''nightly_windows'' \<mapsto>
              JDict (dict_set ''archive_download_url'' (download_url csid s) d))
      else state w)"
  using assms
  by (simp add: artifact_step_def update_nightly_def bind_def py_eq_JStr map_of_dict_set
        download_url_def)

lemma count_failed_zero:
  "count_failed js = Inr 0 \<Longrightarrow> \<forall>j \<in> set js. getitem j ''conclusion'' = Inr (JStr ''success'')"
  by (induction js) (auto simp: bind_def split: sum.splits if_splits)

lemma summarise_jobs_success:
  assumes "summarise_jobs cfg m s payload = Inr summary" and "js_build_success summary"
  shows "\<exists>jobs js. getitem payload ''jobs'' = Inr jobs \<and> py_iter jobs = Inr js
           \<and> (\<forall>j \<in> set js. getitem j ''conclusion'' = Inr (JStr ''success''))"
proof -
  from assms(1) obtain jobs t js f where
    a: "getitem payload ''jobs'' = Inr jobs" and "py_len jobs = Inr t"
    and b: "py_iter jobs = Inr js" and c: "count_failed js = Inr f"
    by (auto simp: summarise_jobs_def bind_def split: sum.splits)
  with assms have "f = 0"
    by (auto simp: summarise_jobs_def bind_def Let_def split: sum.splits if_splits)
  with a b c count_failed_zero show ?thesis by blast
qed


lemma ci_state_path:
  "state (snd (get_ci_results cfg parse ev w)) = state w
   \<or> (\<exists>wr rs run info ju summary au al arts.
         getitem (fst (fetch_runs cfg w)) ''workflow_runs'' = Inr wr \<and> py_iter wr = Inr rs
       \<and> find_run rs (check_suite_id ev) = Inr (Some run)
       \<and> run_metadata parse run = Inr info \<and> getitem run ''jobs_url'' = Inr ju
       \<and> summarise_jobs cfg (ri_minutes info) (ri_seconds info)
            (fst (fetch cfg ju (snd (fetch_runs cfg w)))) = Inr summary
       \<and> getitem run ''artifacts_url'' = Inr au
       \<and> getitem (fst (fetch cfg au (snd (fetch cfg ju (snd (fetch_runs cfg w)))))) ''artifacts'' = Inr al
       \<and> py_iter al = Inr arts
       \<and> state (snd (get_ci_results cfg parse ev w)) =
           state (snd (artifacts_loop (js_build_success summary) (ri_branch info) (check_suite_id ev)
                    arts [] (snd (fetch cfg au (snd (fetch cfg ju (snd (fetch_runs cfg w)))))))))"
  unfolding get_ci_results_def Let_def case_prod_beta
  by (auto simp: bind_def emit_state get_with_retry_frame split: sum.splits option.splits)


lemma run_metadata_branch:
  "run_metadata parse run = Inr info \<Longrightarrow> getitem run ''head_branch'' = Inr (ri_branch info)"
  by (auto simp: run_metadata_def bind_def Let_def split: sum.splits)

lemma summarise_jobs_truthy:
  "summarise_jobs cfg m s payload = Inr summary \<Longrightarrow> truthy payload"
  by (cases "getitem payload ''jobs''") (auto simp: summarise_jobs_def bind_def getitem_truthy)

lemma ci_state_reached:
  assumes "getitem (fst (fetch_runs cfg w)) ''workflow_runs'' = Inr wr" and "py_iter wr = Inr rs"
    and "find_run rs (check_suite_id ev) = Inr (Some run)"
    and "run_metadata parse run = Inr info" and "getitem run ''jobs_url'' = Inr ju"
    and "summarise_jobs cfg (ri_minutes info) (ri_seconds info)
           (fst (fetch cfg ju (snd (fetch_runs cfg w)))) = Inr summary"
    and "getitem run ''artifacts_url'' = Inr au"
    and "getitem (fst (fetch cfg au (snd (fetch cfg ju (snd (fetch_runs cfg w)))))) ''artifacts'' = Inr al"
    and "py_iter al = Inr arts"
  shows "state (snd (get_ci_results cfg parse ev w)) =
           state (snd (artifacts_loop (js_build_success summary) (ri_branch info) (check_suite_id ev)
                    arts [] (snd (fetch cfg au (snd (fetch cfg ju (snd (fetch_runs cfg w))))))))"
  using assms getitem_truthy[OF assms(1)] getitem_truthy[OF assms(8)] summarise_jobs_truthy[OF assms(6)]
  by (simp add: get_ci_results_def bind_def case_prod_beta Let_def split: sum.splits)

lemma get_with_retry_first_ok:
  "responses w = Response st (Some body) # rest \<Longrightarrow> st < 400 \<Longrightarrow>
   get_with_retry cfg (JStr u) params (Suc n) iv w =
     (body, (emit (HttpGet u params (github_api_auth cfg)) w)\<lparr>responses := rest\<rparr>)"
  by simp

lemma fetch_first_ok:
  "responses w = Response st (Some body) # rest \<Longrightarrow> st < 400 \<Longrightarrow>
   get_with_retry cfg (JStr u) params default_retries iv w =
     (body, (emit (HttpGet u params (github_api_auth cfg)) w)\<lparr>responses := rest\<rparr>)"
  using get_with_retry_first_ok[of w st body rest cfg u params 4 iv]
  by (simp add: default_retries_def eval_nat_numeral)

lemma artifact_step_wf:
  assumes "wf_artifact a"
  shows "artifact_step True (JStr ''master'') csid a w =
           (Inr (artifact_entry csid a), w\<lparr>state := slot_write csid (state w) a\<rparr>)"
proof -
  from assms obtain d aid s nm where
    a: "a = JDict d" and i: "map_of d ''id'' = Some aid" and p: "py_str aid = Inr s"
    and n: "map_of d ''name'' = Some (JStr nm)"
    by (cases a) (auto simp: wf_artifact_def split: sum.splits option.splits json.splits)
  show ?thesis
    by (simp add: a i p n artifact_step_def update_nightly_def bind_def py_eq_JStr map_of_dict_set
          download_url_def slot_write_def artifact_name_def artifact_id_str_def
          stored_artifact_def artifact_entry_def)
qed

lemma artifacts_loop_wf:
  "\<forall>a \<in> set arts. wf_artifact a \<Longrightarrow>
   artifacts_loop True (JStr ''master'') csid arts acc w =
     (Inr (acc @ map (artifact_entry csid) arts),
      w\<lparr>state := foldl (slot_write csid) (state w) arts\<rparr>)"
proof (induction arts arbitrary: acc w)
  case Nil
  then show ?case by simp
next
  case (Cons a arts)
  then show ?case by (simp add: artifact_step_wf)
qed

lemma ci_state_written:
  assumes "getitem (fst (fetch_runs cfg w)) ''workflow_runs'' = Inr wr" and "py_iter wr = Inr rs"
    and "find_run rs (check_suite_id ev) = Inr (Some run)"
    and "run_metadata parse run = Inr info" and "getitem run ''jobs_url'' = Inr ju"
    and "summarise_jobs cfg (ri_minutes info) (ri_seconds info)
           (fst (fetch cfg ju (snd (fetch_runs cfg w)))) = Inr summary"
    and "getitem run ''artifacts_url'' = Inr au"
    and "getitem (fst (fetch cfg au (snd (fetch cfg ju (snd (fetch_runs cfg w)))))) ''artifacts'' = Inr al"
    and "py_iter al = Inr arts"
    and "js_build_success summary" and "ri_branch info = JStr ''master''"
    and "\<forall>a \<in> set arts. wf_artifact a"
  shows "state (snd (get_ci_results cfg parse ev w)) =
           foldl (slot_write (check_suite_id ev)) (state w) arts"
  using ci_state_reached[OF assms(1-9)] assms(10-12)
  by (simp add: artifacts_loop_wf get_with_retry_frame)

text \<open>
  C3, amended. (1) If \<open>get_ci_results\<close> changes \<open>self.state\<close> at all, then the run of the
  check suite was found, its branch is \<open>master\<close>, and every job of its job list has the
  conclusion \<open>success\<close>. (2) When the three fetches and the steps between them succeed,
  the state after the call is the state the loop over the artifacts leaves. (3) That loop
  leaves the state as it was unless the build succeeded and the branch is \<open>master\<close>.
  (4) Under that condition one artifact with an id and a name changes the state so: a name
  that contains \<open>macOS\<close> sets the slot \<open>nightly_macos\<close> and nothing else; a name that
  contains \<open>win64\<close> and not \<open>macOS\<close> sets the slot \<open>nightly_windows\<close> and nothing else; any
  other name changes nothing. The slot receives the artifact with its download url.
  (5) For such an artifact the loop body returns its entry and writes the slots as
  \<open>slot_write\<close> says. (6) The loop over such artifacts returns the entries in order and
  leaves the slots written artifact by artifact, from the first to the last. (7) So when
  the fetches succeed, every job succeeded and the branch is \<open>master\<close>, the state after
  \<open>get_ci_results\<close> is the state before it with the slots written for each artifact in
  turn.
\<close>

theorem nightly_state_update:
  "(state (snd (get_ci_results cfg parse ev w)) \<noteq> state w \<longrightarrow>
      (\<exists>wr rs run ju jobs js.
          getitem (fst (fetch_runs cfg w)) ''workflow_runs'' = Inr wr \<and> py_iter wr = Inr rs
        \<and> find_run rs (check_suite_id ev) = Inr (Some run)
        \<and> getitem run ''head_branch'' = Inr (JStr ''master'')
        \<and> getitem run ''jobs_url'' = Inr ju
        \<and> getitem (fst (fetch cfg ju (snd (fetch_runs cfg w)))) ''jobs'' = Inr jobs
        \<and> py_iter jobs = Inr js
        \<and> (\<forall>j \<in> set js. getitem j ''conclusion'' = Inr (JStr ''success''))))
   \<and> (getitem (fst (fetch_runs cfg w)) ''workflow_runs'' = Inr wr \<and> py_iter wr = Inr rs
        \<and> find_run rs (check_suite_id ev) = Inr (Some run)
        \<and> run_metadata parse run = Inr info \<and> getitem run ''jobs_url'' = Inr ju
        \<and> summarise_jobs cfg (ri_minutes info) (ri_seconds info)
             (fst (fetch cfg ju (snd (fetch_runs cfg w)))) = Inr summary
        \<and> getitem run ''artifacts_url'' = Inr au
        \<and> getitem (fst (fetch cfg au (snd (fetch cfg ju (snd (fetch_runs cfg w)))))) ''artifacts'' = Inr al
        \<and> py_iter al = Inr arts \<longrightarrow>
      state (snd (get_ci_results cfg parse ev w)) =
        state (snd (artifacts_loop (js_build_success summary) (ri_branch info) (check_suite_id ev)
                 arts [] (snd (fetch cfg au (snd (fetch cfg ju (snd (fetch_runs cfg w)))))))))
   \<and> (\<not> (bs \<and> br = JStr ''master'') \<longrightarrow>
        state (snd (artifacts_loop bs br csid arts' acc w')) = state w')
   \<and> (map_of d ''id'' = Some aid \<and> py_str aid = Inr s \<and> map_of d ''name'' = Some (JStr nm) \<longrightarrow>
        state (snd (artifact_step True (JStr ''master'') csid (JDict d) w')) =
          (if contains ''macOS'' nm
           then (state w')(''nightly_macos'' \<mapsto>
                   JDict (dict_set ''archive_download_url'' (download_url csid s) d))
           else if contains ''win64'' nm
           then (state w')(''nightly_windows'' \<mapsto>
                   JDict (dict_set ''archive_download_url'' (download_url csid s) d))
           else state w'))
   \<and> (wf_artifact a \<longrightarrow>
        artifact_step True (JStr ''master'') csid a w' =
          (Inr (artifact_entry csid a), w'\<lparr>state := slot_write csid (state w') a\<rparr>))
   \<and> ((\<forall>x \<in> set arts'. wf_artifact x) \<longrightarrow>
        artifacts_loop True (JStr ''master'') csid arts' acc w' =
          (Inr (acc @ map (artifact_entry csid) arts'),
           w'\<lparr>state := foldl (slot_write csid) (state w') arts'\<rparr>))
   \<and> (getitem (fst (fetch_runs cfg w)) ''workflow_runs'' = Inr wr \<and> py_iter wr = Inr rs
        \<and> find_run rs (check_suite_id ev) = Inr (Some run)
        \<and> run_metadata parse run = Inr info \<and> getitem run ''jobs_url'' = Inr ju
        \<and> summarise_jobs cfg (ri_minutes info) (ri_seconds info)
             (fst (fetch cfg ju (snd (fetch_runs cfg w)))) = Inr summary
        \<and> getitem run ''artifacts_url'' = Inr au
        \<and> getitem (fst (fetch cfg au (snd (fetch cfg ju (snd (fetch_runs cfg w)))))) ''artifacts'' = Inr al
        \<and> py_iter al = Inr arts
        \<and> js_build_success summary \<and> ri_branch info = JStr ''master''
        \<and> (\<forall>x \<in> set arts. wf_artifact x) \<longrightarrow>
      state (snd (get_ci_results cfg parse ev w)) =
        foldl (slot_write (check_suite_id ev)) (state w) arts)"
proof (intro conjI impI)
  assume ch: "state (snd (get_ci_results cfg parse ev w)) \<noteq> state w"
  with ci_state_path[of cfg parse ev w]
  obtain wr rs run info ju summary au al arts where
    a: "getitem (fst (fetch_runs cfg w)) ''workflow_runs'' = Inr wr" "py_iter wr = Inr rs"
       "find_run rs (check_suite_id ev) = Inr (Some run)"
       "run_metadata parse run = Inr info" "getitem run ''jobs_url'' = Inr ju"
    and sm: "summarise_jobs cfg (ri_minutes info) (ri_seconds info)
            (fst (fetch cfg ju (snd (fetch_runs cfg w)))) = Inr summary"
    and st: "state (snd (get_ci_results cfg parse ev w)) =
           state (snd (artifacts_loop (js_build_success summary) (ri_branch info) (check_suite_id ev)
                    arts [] (snd (fetch cfg au (snd (fetch cfg ju (snd (fetch_runs cfg w))))))))"
    by blast
  have "js_build_success summary \<and> ri_branch info = JStr ''master''"
  proof (rule ccontr)
    assume "\<not> (js_build_success summary \<and> ri_branch info = JStr ''master'')"
    from artifacts_loop_frame[OF this] st have "state (snd (get_ci_results cfg parse ev w)) = state w"
      by (simp add: get_with_retry_frame)
    with ch show False by simp
  qed
  then have bs: "js_build_success summary" and br: "getitem run ''head_branch'' = Inr (JStr ''master'')"
    using run_metadata_branch[OF a(4)] by simp_all
  from summarise_jobs_success[OF sm bs] a br
  show "\<exists>wr rs run ju jobs js.
          getitem (fst (fetch_runs cfg w)) ''workflow_runs'' = Inr wr \<and> py_iter wr = Inr rs
        \<and> find_run rs (check_suite_id ev) = Inr (Some run)
        \<and> getitem run ''head_branch'' = Inr (JStr ''master'')
        \<and> getitem run ''jobs_url'' = Inr ju
        \<and> getitem (fst (fetch cfg ju (snd (fetch_runs cfg w)))) ''jobs'' = Inr jobs
        \<and> py_iter jobs = Inr js
        \<and> (\<forall>j \<in> set js. getitem j ''conclusion'' = Inr (JStr ''success''))"
    by blast
next
  assume "getitem (fst (fetch_runs cfg w)) ''workflow_runs'' = Inr wr \<and> py_iter wr = Inr rs
        \<and> find_run rs (check_suite_id ev) = Inr (Some run)
        \<and> run_metadata parse run = Inr info \<and> getitem run ''jobs_url'' = Inr ju
        \<and> summarise_jobs cfg (ri_minutes info) (ri_seconds info)
             (fst (fetch cfg ju (snd (fetch_runs cfg w)))) = Inr summary
        \<and> getitem run ''artifacts_url'' = Inr au
        \<and> getitem (fst (fetch cfg au (snd (fetch cfg ju (snd (fetch_runs cfg w)))))) ''artifacts'' = Inr al
        \<and> py_iter al = Inr arts"
  then show "state (snd (get_ci_results cfg parse ev w)) =
        state (snd (artifacts_loop (js_build_success summary) (ri_branch info) (check_suite_id ev)
                 arts [] (snd (fetch cfg au (snd (fetch cfg ju (snd (fetch_runs cfg w))))))))"
    using ci_state_reached[of cfg w wr rs ev run parse info ju summary au al arts] by blast
next
  assume "\<not> (bs \<and> br = JStr ''master'')"
  then show "state (snd (artifacts_loop bs br csid arts' acc w')) = state w'"
    by (rule artifacts_loop_frame)
next
  assume "map_of d ''id'' = Some aid \<and> py_str aid = Inr s \<and> map_of d ''name'' = Some (JStr nm)"
  then show "state (snd (artifact_step True (JStr ''master'') csid (JDict d) w')) =
          (if contains ''macOS'' nm
           then (state w')(''nightly_macos'' \<mapsto>
                   JDict (dict_set ''archive_download_url'' (download_url csid s) d))
           else if contains ''win64'' nm
           then (state w')(''nightly_windows'' \<mapsto>
                   JDict (dict_set ''archive_download_url'' (download_url csid s) d))
           else state w')"
    using artifact_step_state[of d aid s nm csid w'] by blast
next
  assume "wf_artifact a"
  then show "artifact_step True (JStr ''master'') csid a w' =
          (Inr (artifact_entry csid a), w'\<lparr>state := slot_write csid (state w') a\<rparr>)"
    by (rule artifact_step_wf)
next
  assume "\<forall>x \<in> set arts'. wf_artifact x"
  then show "artifacts_loop True (JStr ''master'') csid arts' acc w' =
          (Inr (acc @ map (artifact_entry csid) arts'),
           w'\<lparr>state := foldl (slot_write csid) (state w') arts'\<rparr>)"
    by (rule artifacts_loop_wf)
next
  assume "getitem (fst (fetch_runs cfg w)) ''workflow_runs'' = Inr wr \<and> py_iter wr = Inr rs
        \<and> find_run rs (check_suite_id ev) = Inr (Some run)
        \<and> run_metadata parse run = Inr info \<and> getitem run ''jobs_url'' = Inr ju
        \<and> summarise_jobs cfg (ri_minutes info) (ri_seconds info)
             (fst (fetch cfg ju (snd (fetch_runs cfg w)))) = Inr summary
        \<and> getitem run ''artifacts_url'' = Inr au
        \<and> getitem (fst (fetch cfg au (snd (fetch cfg ju (snd (fetch_runs cfg w)))))) ''artifacts'' = Inr al
        \<and> py_iter al = Inr arts
        \<and> js_build_success summary \<and> ri_branch info = JStr ''master''
        \<and> (\<forall>x \<in> set arts. wf_artifact x)"
  then show "state (snd (get_ci_results cfg parse ev w)) =
        foldl (slot_write (check_suite_id ev)) (state w) arts"
    using ci_state_written[of cfg w wr rs ev run parse info ju summary au al arts] by blast
qed

lemma example_run_facts:
  "getitem (example_runs br) ''workflow_runs'' = Inr (JList [example_run br])"
  "find_run [example_run br] 42 = Inr (Some (example_run br))"
  "getitem (example_run br) ''jobs_url'' = Inr (JStr ''https://api.github.com/jobs'')"
  "getitem (example_run br) ''artifacts_url'' = Inr (JStr ''https://api.github.com/artifacts'')"
  "getitem (example_run br) ''head_branch'' = Inr (JStr br)"
  "run_metadata example_parse (example_run br) =
     Inr \<lparr>ri_commit_hash = JStr ''abc123'', ri_finished = 1609459805, ri_minutes = 10,
          ri_seconds = 5, ri_repo = JStr ''obsproject/obs-studio'', ri_branch = JStr br,
          ri_web_url = JStr ''https://github.com/obsproject/obs-studio/actions/runs/7''\<rparr>"
  by (simp_all add: example_runs_def example_run_def bind_def py_eq_def run_metadata_def
        example_parse_def)

lemma example_summary:
  "summarise_jobs example_config 10 5 (example_jobs [example_job ''macOS'' ''success''])
     = Inr \<lparr>js_build_success = True, js_colour = ci_passed_colour,
            js_reaction_emote = ''passed_emote'', js_build_result = ''succeeded'',
            js_message = [''All jobs succeeded after 10m5s'', ''**Succeeded:** macOS'']\<rparr>"
  by (simp add: summarise_jobs_def example_jobs_def example_job_def bind_def py_join_def
        str_int_def str_nat.simps example_config_def)

lemma example_fetches:
  "fst (fetch_runs example_config (example_world (example_responses br arts))) = example_runs br"
  "fst (fetch example_config (JStr ''https://api.github.com/jobs'')
         (snd (fetch_runs example_config (example_world (example_responses br arts)))))
     = example_jobs [example_job ''macOS'' ''success'']"
  "fst (fetch example_config (JStr ''https://api.github.com/artifacts'')
         (snd (fetch example_config (JStr ''https://api.github.com/jobs'')
           (snd (fetch_runs example_config (example_world (example_responses br arts)))))))
     = example_artifacts arts"
  "state (snd (fetch example_config (JStr ''https://api.github.com/artifacts'')
         (snd (fetch example_config (JStr ''https://api.github.com/jobs'')
           (snd (fetch_runs example_config (example_world (example_responses br arts))))))))
     = Map.empty"
  by (simp_all add: fetch_first_ok example_world_def example_responses_def emit_def
        get_with_retry_frame)


lemma artifacts_loop_single:
  "state (snd (artifacts_loop bs br csid [a] acc w)) = state (snd (artifact_step bs br csid a w))"
  by (cases "artifact_step bs br csid a w"; cases "fst (artifact_step bs br csid a w)") auto

lemma example_artifact_state:
  "state (snd (artifact_step True (JStr ''master'') csid (example_artifact i nm) w)) =
     (if contains ''macOS'' nm
      then (state w)(''nightly_macos'' \<mapsto>
              JDict [(''id'', JNum i), (''name'', JStr nm),
                     (''archive_download_url'', download_url csid (str_int i))])
      else if contains ''win64'' nm
      then (state w)(''nightly_windows'' \<mapsto>
              JDict [(''id'', JNum i), (''name'', JStr nm),
                     (''archive_download_url'', download_url csid (str_int i))])
      else state w)"
  using artifact_step_state[of "[(''id'', JNum i), (''name'', JStr nm)]" "JNum i" "str_int i" nm csid w]
  by (simp add: example_artifact_def)

lemma example_ci_state:
  "state (snd (get_ci_results example_config example_parse (example_event 42)
                 (example_world (example_responses br arts)))) =
   state (snd (artifacts_loop True (JStr br) 42 arts []
     (snd (fetch example_config (JStr ''https://api.github.com/artifacts'')
         (snd (fetch example_config (JStr ''https://api.github.com/jobs'')
           (snd (fetch_runs example_config (example_world (example_responses br arts))))))))))"
proof -
  let ?info = "\<lparr>ri_commit_hash = JStr ''abc123'', ri_finished = 1609459805, ri_minutes = 10,
          ri_seconds = 5, ri_repo = JStr ''obsproject/obs-studio'', ri_branch = JStr br,
          ri_web_url = JStr ''https://github.com/obsproject/obs-studio/actions/runs/7''\<rparr>"
  let ?summary = "\<lparr>js_build_success = True, js_colour = ci_passed_colour,
            js_reaction_emote = ''passed_emote'', js_build_result = ''succeeded'',
            js_message = [''All jobs succeeded after 10m5s'', ''**Succeeded:** macOS'']\<rparr>"
  have "state (snd (get_ci_results example_config example_parse (example_event 42)
                 (example_world (example_responses br arts)))) =
        state (snd (artifacts_loop (js_build_success ?summary) (ri_branch ?info)
          (check_suite_id (example_event 42)) arts []
          (snd (fetch example_config (JStr ''https://api.github.com/artifacts'')
            (snd (fetch example_config (JStr ''https://api.github.com/jobs'')
              (snd (fetch_runs example_config (example_world (example_responses br arts))))))))))"
    by (rule ci_state_reached[where wr = "JList [example_run br]" and rs = "[example_run br]"
          and run = "example_run br" and info = ?info and ju = "JStr ''https://api.github.com/jobs''"
          and summary = ?summary and au = "JStr ''https://api.github.com/artifacts''"
          and al = "JList arts"])
       (simp_all add: example_fetches example_run_facts example_summary example_event_def
          example_artifacts_def del: find_run.simps)
  then show ?thesis by (simp add: example_event_def)
qed

text \<open>
  C3. The claim fails for an artifact whose name contains both \<open>macOS\<close> and \<open>win64\<close>: the
  build succeeded on \<open>master\<close>, the name contains \<open>win64\<close>, and the slot
  \<open>nightly_windows\<close> is not written; the slot \<open>nightly_macos\<close> is.
\<close>

theorem nightly_windows_counterexample:
  "contains ''win64'' ''OBS-Studio-macOS-win64.zip''
   \<and> state (snd (get_ci_results example_config example_parse (example_event 42)
        (example_world (example_responses ''master''
           [example_artifact 1 ''OBS-Studio-macOS-win64.zip''])))) ''nightly_windows'' = None
   \<and> state (snd (get_ci_results example_config example_parse (example_event 42)
        (example_world (example_responses ''master''
           [example_artifact 1 ''OBS-Studio-macOS-win64.zip''])))) ''nightly_macos''
       = Some (JDict [(''id'', JNum 1), (''name'', JStr ''OBS-Studio-macOS-win64.zip''),
                      (''archive_download_url'',
                       JStr ''https://github.com/obsproject/obs-studio/suites/42/artifacts/1'')])"
  by (simp add: example_ci_state artifacts_loop_single example_artifact_state example_fetches
        startswith_def download_url_def str_int_def str_nat.simps del: artifacts_loop.simps)


theorem nightly_state_update_witness:
  "(\<exists>wr rs run ju jobs js.
       getitem (fst (fetch_runs example_config (example_world (example_responses ''master''
           [example_artifact 1 ''OBS-Studio-27.0.0-macOS.dmg''])))) ''workflow_runs'' = Inr wr
     \<and> py_iter wr = Inr rs
     \<and> find_run rs (check_suite_id (example_event 42)) = Inr (Some run)
     \<and> getitem run ''head_branch'' = Inr (JStr ''master'')
     \<and> getitem run ''jobs_url'' = Inr ju
     \<and> getitem (fst (fetch example_config ju (snd (fetch_runs example_config
           (example_world (example_responses ''master''
              [example_artifact 1 ''OBS-Studio-27.0.0-macOS.dmg'']))))))
          ''jobs'' = Inr jobs
     \<and> py_iter jobs = Inr js
     \<and> (\<forall>j \<in> set js. getitem j ''conclusion'' = Inr (JStr ''success'')))
   \<and> state (snd (get_ci_results example_config example_parse (example_event 42)
        (example_world (example_responses ''dev''
           [example_artifact 1 ''OBS-Studio-27.0.0-macOS.dmg''])))) = Map.empty
   \<and> state (snd (artifacts_loop False (JStr ''master'') 42
        [example_artifact 1 ''OBS-Studio-27.0.0-macOS.dmg''] [] (example_world []))) = Map.empty
   \<and> state (snd (artifact_step True (JStr ''master'') 42
        (JDict [(''id'', JNum 2), (''name'', JStr ''OBS-Studio-27.0.0-win64.zip'')])
        (example_world [])))
      = [''nightly_windows'' \<mapsto>
           JDict [(''id'', JNum 2), (''name'', JStr ''OBS-Studio-27.0.0-win64.zip''),
                  (''archive_download_url'', download_url 42 ''2'')]]
   \<and> artifact_step True (JStr ''master'') 42
        (example_artifact 2 ''OBS-Studio-27.0.0-win64.zip'') (example_world [])
      = (Inr ''[OBS-Studio-27.0.0-win64.zip](https://github.com/obsproject/obs-studio/suites/42/artifacts/2)'',
         (example_world [])\<lparr>state := [''nightly_windows'' \<mapsto>
           JDict [(''id'', JNum 2), (''name'', JStr ''OBS-Studio-27.0.0-win64.zip''),
                  (''archive_download_url'',
                   JStr ''https://github.com/obsproject/obs-studio/suites/42/artifacts/2'')]]\<rparr>)
   \<and> artifacts_loop True (JStr ''master'') 42
        [example_artifact 1 ''OBS-Studio-27.0.0-macOS.dmg'',
         example_artifact 2 ''OBS-Studio-27.0.0-win64.zip'',
         example_artifact 3 ''OBS-Studio-27.0.0-linux.deb''] [] (example_world [])
      = (Inr [''[OBS-Studio-27.0.0-macOS.dmg](https://github.com/obsproject/obs-studio/suites/42/artifacts/1)'',
              ''[OBS-Studio-27.0.0-win64.zip](https://github.com/obsproject/obs-studio/suites/42/artifacts/2)'',
              ''[OBS-Studio-27.0.0-linux.deb](https://github.com/obsproject/obs-studio/suites/42/artifacts/3)''],
         (example_world [])\<lparr>state :=
           [''nightly_macos'' \<mapsto>
              JDict [(''id'', JNum 1), (''name'', JStr ''OBS-Studio-27.0.0-macOS.dmg''),
                     (''archive_download_url'',
                      JStr ''https://github.com/obsproject/obs-studio/suites/42/artifacts/1'')],
            ''nightly_windows'' \<mapsto>
              JDict [(''id'', JNum 2), (''name'', JStr ''OBS-Studio-27.0.0-win64.zip''),
                     (''archive_download_url'',
                      JStr ''https://github.com/obsproject/obs-studio/suites/42/artifacts/2'')]]\<rparr>)
   \<and> state (snd (get_ci_results example_config example_parse (example_event 42)
        (example_world (example_responses ''master''
           [example_artifact 1 ''OBS-Studio-27.0.0-macOS.dmg'',
            example_artifact 2 ''OBS-Studio-27.0.0-win64.zip'',
            example_artifact 3 ''OBS-Studio-27.0.0-linux.deb'']))))
      = [''nightly_macos'' \<mapsto>
           JDict [(''id'', JNum 1), (''name'', JStr ''OBS-Studio-27.0.0-macOS.dmg''),
                  (''archive_download_url'',
                   JStr ''https://github.com/obsproject/obs-studio/suites/42/artifacts/1'')],
         ''nightly_windows'' \<mapsto>
           JDict [(''id'', JNum 2), (''name'', JStr ''OBS-Studio-27.0.0-win64.zip''),
                  (''archive_download_url'',
                   JStr ''https://github.com/obsproject/obs-studio/suites/42/artifacts/2'')]]"
proof -
  let ?arts = "[example_artifact 1 ''OBS-Studio-27.0.0-macOS.dmg'']"
  let ?three = "[example_artifact 1 ''OBS-Studio-27.0.0-macOS.dmg'',
            example_artifact 2 ''OBS-Studio-27.0.0-win64.zip'',
            example_artifact 3 ''OBS-Studio-27.0.0-linux.deb'']"
  let ?U = "example_world (example_responses ''master'' ?three)"
  let ?minfo = "\<lparr>ri_commit_hash = JStr ''abc123'', ri_finished = 1609459805, ri_minutes = 10,
          ri_seconds = 5, ri_repo = JStr ''obsproject/obs-studio'', ri_branch = JStr ''master'',
          ri_web_url = JStr ''https://github.com/obsproject/obs-studio/actions/runs/7''\<rparr>"
  let ?W = "example_world (example_responses ''master'' ?arts)"
  let ?V = "example_world (example_responses ''dev'' ?arts)"
  let ?info = "\<lparr>ri_commit_hash = JStr ''abc123'', ri_finished = 1609459805, ri_minutes = 10,
          ri_seconds = 5, ri_repo = JStr ''obsproject/obs-studio'', ri_branch = JStr ''dev'',
          ri_web_url = JStr ''https://github.com/obsproject/obs-studio/actions/runs/7''\<rparr>"
  let ?summary = "\<lparr>js_build_success = True, js_colour = ci_passed_colour,
            js_reaction_emote = ''passed_emote'', js_build_result = ''succeeded'',
            js_message = [''All jobs succeeded after 10m5s'', ''**Succeeded:** macOS'']\<rparr>"
  note t = nightly_state_update
  have "state (snd (get_ci_results example_config example_parse (example_event 42) ?W)) ''nightly_macos''
          \<noteq> state ?W ''nightly_macos''"
    by (simp add: example_ci_state artifacts_loop_single example_artifact_state example_fetches
          startswith_def del: artifacts_loop.simps)
       (simp add: example_world_def)
  then have h1: "state (snd (get_ci_results example_config example_parse (example_event 42) ?W))
          \<noteq> state ?W"
    by metis
  have h2: "getitem (fst (fetch_runs example_config ?V)) ''workflow_runs'' = Inr (JList [example_run ''dev''])
        \<and> py_iter (JList [example_run ''dev'']) = Inr [example_run ''dev'']
        \<and> find_run [example_run ''dev''] (check_suite_id (example_event 42)) = Inr (Some (example_run ''dev''))
        \<and> run_metadata example_parse (example_run ''dev'') = Inr ?info
        \<and> getitem (example_run ''dev'') ''jobs_url'' = Inr (JStr ''https://api.github.com/jobs'')
        \<and> summarise_jobs example_config (ri_minutes ?info) (ri_seconds ?info)
             (fst (fetch example_config (JStr ''https://api.github.com/jobs'')
                (snd (fetch_runs example_config ?V)))) = Inr ?summary
        \<and> getitem (example_run ''dev'') ''artifacts_url'' = Inr (JStr ''https://api.github.com/artifacts'')
        \<and> getitem (fst (fetch example_config (JStr ''https://api.github.com/artifacts'')
              (snd (fetch example_config (JStr ''https://api.github.com/jobs'')
                 (snd (fetch_runs example_config ?V)))))) ''artifacts'' = Inr (JList ?arts)
        \<and> py_iter (JList ?arts) = Inr ?arts"
    by (simp add: example_fetches example_run_facts example_summary example_event_def
          example_artifacts_def del: find_run.simps)
  have h3: "\<not> (True \<and> JStr ''dev'' = JStr ''master'')" "\<not> (False \<and> JStr ''master'' = JStr ''master'')"
    by simp_all
  have h4: "map_of [(''id'', JNum 2), (''name'', JStr ''OBS-Studio-27.0.0-win64.zip'')] ''id'' = Some (JNum 2)
        \<and> py_str (JNum 2) = Inr ''2''
        \<and> map_of [(''id'', JNum 2), (''name'', JStr ''OBS-Studio-27.0.0-win64.zip'')] ''name''
            = Some (JStr ''OBS-Studio-27.0.0-win64.zip'')"
    by (simp add: str_int_def str_nat.simps)
  from t[THEN conjunct1, THEN mp, OF h1]
  have c1: "\<exists>wr rs run ju jobs js.
       getitem (fst (fetch_runs example_config ?W)) ''workflow_runs'' = Inr wr
     \<and> py_iter wr = Inr rs
     \<and> find_run rs (check_suite_id (example_event 42)) = Inr (Some run)
     \<and> getitem run ''head_branch'' = Inr (JStr ''master'')
     \<and> getitem run ''jobs_url'' = Inr ju
     \<and> getitem (fst (fetch example_config ju (snd (fetch_runs example_config ?W)))) ''jobs'' = Inr jobs
     \<and> py_iter jobs = Inr js
     \<and> (\<forall>j \<in> set js. getitem j ''conclusion'' = Inr (JStr ''success''))" .
  from t[THEN conjunct2, THEN conjunct1, THEN mp, OF h2]
       t[THEN conjunct2, THEN conjunct2, THEN conjunct1, THEN mp, OF h3(1)]
  have c2: "state (snd (get_ci_results example_config example_parse (example_event 42) ?V)) = Map.empty"
    by (simp add: example_fetches del: artifacts_loop.simps)
  from t[THEN conjunct2, THEN conjunct2, THEN conjunct1, THEN mp, OF h3(2)]
  have c3: "state (snd (artifacts_loop False (JStr ''master'') 42 ?arts [] (example_world []))) = Map.empty"
    by (simp add: example_world_def del: artifacts_loop.simps)
  have h5: "wf_artifact (example_artifact 2 ''OBS-Studio-27.0.0-win64.zip'')"
    by (simp add: wf_artifact_def example_artifact_def str_int_def str_nat.simps)
  have h6: "\<forall>x \<in> set ?three. wf_artifact x"
    by (simp add: wf_artifact_def example_artifact_def str_int_def str_nat.simps)
  have h7: "getitem (fst (fetch_runs example_config ?U)) ''workflow_runs'' = Inr (JList [example_run ''master''])
        \<and> py_iter (JList [example_run ''master'']) = Inr [example_run ''master'']
        \<and> find_run [example_run ''master''] (check_suite_id (example_event 42))
            = Inr (Some (example_run ''master''))
        \<and> run_metadata example_parse (example_run ''master'') = Inr ?minfo
        \<and> getitem (example_run ''master'') ''jobs_url'' = Inr (JStr ''https://api.github.com/jobs'')
        \<and> summarise_jobs example_config (ri_minutes ?minfo) (ri_seconds ?minfo)
             (fst (fetch example_config (JStr ''https://api.github.com/jobs'')
                (snd (fetch_runs example_config ?U)))) = Inr ?summary
        \<and> getitem (example_run ''master'') ''artifacts_url'' = Inr (JStr ''https://api.github.com/artifacts'')
        \<and> getitem (fst (fetch example_config (JStr ''https://api.github.com/artifacts'')
              (snd (fetch example_config (JStr ''https://api.github.com/jobs'')
                 (snd (fetch_runs example_config ?U)))))) ''artifacts'' = Inr (JList ?three)
        \<and> py_iter (JList ?three) = Inr ?three
        \<and> js_build_success ?summary \<and> ri_branch ?minfo = JStr ''master''
        \<and> (\<forall>x \<in> set ?three. wf_artifact x)"
    using h6
    by (simp add: example_fetches example_run_facts example_summary example_event_def
          example_artifacts_def del: find_run.simps)
  have ev: "slot_write 42 Map.empty (example_artifact 2 ''OBS-Studio-27.0.0-win64.zip'')
      = [''nightly_windows'' \<mapsto>
           JDict [(''id'', JNum 2), (''name'', JStr ''OBS-Studio-27.0.0-win64.zip''),
                  (''archive_download_url'',
                   JStr ''https://github.com/obsproject/obs-studio/suites/42/artifacts/2'')]]"
    "foldl (slot_write 42) Map.empty ?three
      = [''nightly_macos'' \<mapsto>
           JDict [(''id'', JNum 1), (''name'', JStr ''OBS-Studio-27.0.0-macOS.dmg''),
                  (''archive_download_url'',
                   JStr ''https://github.com/obsproject/obs-studio/suites/42/artifacts/1'')],
         ''nightly_windows'' \<mapsto>
           JDict [(''id'', JNum 2), (''name'', JStr ''OBS-Studio-27.0.0-win64.zip''),
                  (''archive_download_url'',
                   JStr ''https://github.com/obsproject/obs-studio/suites/42/artifacts/2'')]]"
    "map (artifact_entry 42) ?three
      = [''[OBS-Studio-27.0.0-macOS.dmg](https://github.com/obsproject/obs-studio/suites/42/artifacts/1)'',
         ''[OBS-Studio-27.0.0-win64.zip](https://github.com/obsproject/obs-studio/suites/42/artifacts/2)'',
         ''[OBS-Studio-27.0.0-linux.deb](https://github.com/obsproject/obs-studio/suites/42/artifacts/3)'']"
    by (simp_all add: slot_write_def stored_artifact_def artifact_name_def artifact_id_str_def
          artifact_entry_def example_artifact_def download_url_def startswith_def
          str_int_def str_nat.simps)
  from t[where a = "example_artifact 2 ''OBS-Studio-27.0.0-win64.zip''" and csid = 42
           and w' = "example_world []",
         THEN conjunct2, THEN conjunct2, THEN conjunct2, THEN conjunct2, THEN conjunct1,
         THEN mp, OF h5]
  have c5: "artifact_step True (JStr ''master'') 42
        (example_artifact 2 ''OBS-Studio-27.0.0-win64.zip'') (example_world [])
      = (Inr ''[OBS-Studio-27.0.0-win64.zip](https://github.com/obsproject/obs-studio/suites/42/artifacts/2)'',
         (example_world [])\<lparr>state := [''nightly_windows'' \<mapsto>
           JDict [(''id'', JNum 2), (''name'', JStr ''OBS-Studio-27.0.0-win64.zip''),
                  (''archive_download_url'',
                   JStr ''https://github.com/obsproject/obs-studio/suites/42/artifacts/2'')]]\<rparr>)"
    using ev(1) ev(3) by (simp add: example_world_def)
  from t[where arts' = ?three and csid = 42 and w' = "example_world []" and acc = "[]",
         THEN conjunct2, THEN conjunct2, THEN conjunct2, THEN conjunct2, THEN conjunct2,
         THEN conjunct1, THEN mp, OF h6]
  have c6: "artifacts_loop True (JStr ''master'') 42 ?three [] (example_world [])
      = (Inr [''[OBS-Studio-27.0.0-macOS.dmg](https://github.com/obsproject/obs-studio/suites/42/artifacts/1)'',
              ''[OBS-Studio-27.0.0-win64.zip](https://github.com/obsproject/obs-studio/suites/42/artifacts/2)'',
              ''[OBS-Studio-27.0.0-linux.deb](https://github.com/obsproject/obs-studio/suites/42/artifacts/3)''],
         (example_world [])\<lparr>state :=
           [''nightly_macos'' \<mapsto>
              JDict [(''id'', JNum 1), (''name'', JStr ''OBS-Studio-27.0.0-macOS.dmg''),
                     (''archive_download_url'',
                      JStr ''https://github.com/obsproject/obs-studio/suites/42/artifacts/1'')],
            ''nightly_windows'' \<mapsto>
              JDict [(''id'', JNum 2), (''name'', JStr ''OBS-Studio-27.0.0-win64.zip''),
                     (''archive_download_url'',
                      JStr ''https://github.com/obsproject/obs-studio/suites/42/artifacts/2'')]]\<rparr>)"
    using ev(2) ev(3) by (simp add: example_world_def del: artifacts_loop.simps foldl.simps list.map)
  from t[THEN conjunct2, THEN conjunct2, THEN conjunct2, THEN conjunct2, THEN conjunct2,
         THEN conjunct2, THEN mp, OF h7]
  have c7: "state (snd (get_ci_results example_config example_parse (example_event 42) ?U))
      = [''nightly_macos'' \<mapsto>
           JDict [(''id'', JNum 1), (''name'', JStr ''OBS-Studio-27.0.0-macOS.dmg''),
                  (''archive_download_url'',
                   JStr ''https://github.com/obsproject/obs-studio/suites/42/artifacts/1'')],
         ''nightly_windows'' \<mapsto>
           JDict [(''id'', JNum 2), (''name'', JStr ''OBS-Studio-27.0.0-win64.zip''),
                  (''archive_download_url'',
                   JStr ''https://github.com/obsproject/obs-studio/suites/42/artifacts/2'')]]"
    using ev(2) by (simp add: example_world_def example_event_def del: foldl.simps)
  from t[where csid = 42 and w' = "example_world []",
         THEN conjunct2, THEN conjunct2, THEN conjunct2, THEN conjunct1, THEN mp, OF h4]
  have c4: "state (snd (artifact_step True (JStr ''master'') 42
        (JDict [(''id'', JNum 2), (''name'', JStr ''OBS-Studio-27.0.0-win64.zip'')])
        (example_world [])))
      = [''nightly_windows'' \<mapsto>
           JDict [(''id'', JNum 2), (''name'', JStr ''OBS-Studio-27.0.0-win64.zip''),
                  (''archive_download_url'', download_url 42 ''2'')]]"
    by (simp add: startswith_def example_world_def)
  from c1 c2 c3 c4 c5 c6 c7 show ?thesis by blast
qed

section \<open>Properties of the event formatters\<close>

lemma strip_comment_lines_example:
  "strip_comment_lines ''<!-- comment -->\<newline>Real text\<newline><!- inline\<newline>More''
     = ''Real text\<newline>More''"
  by (simp add: strip_comment_lines_def splitlines_def line_break_len_def startswith_def
        strip_def ws_len_def lstrip.simps all_ws.simps)

text \<open>
  The formatters on a body that is text. For a pull-request event and for an issue event
  whose body is text and whose creation time parses: the call returns the pair of
  descriptors; the description of the full one is the body split into lines, without the
  lines that start with \<open><!-\<close>, each remaining line stripped of surrounding whitespace,
  joined by newlines; the brief one has no description and is the full one otherwise. The
  body \<open><!-- comment -->\nReal text\n<!- inline\nMore\<close> becomes \<open>Real text\nMore\<close>.
\<close>

lemma strip_on_text_body:
  "(pr_body pr = Some body \<and> parse (pr_created_at pr) = Some ts \<longrightarrow>
      (\<exists>brief full pr'. get_pr_messages parse pr = Inr (brief, full, pr')
         \<and> embed_description full =
              Some (join ''\<newline>'' (map strip (filter (\<lambda>l. \<not> startswith l ''<!-'') (splitlines body))))
         \<and> embed_description brief = None
         \<and> full = brief\<lparr>embed_description := embed_description full\<rparr>))
   \<and> (issue_body issue = Some body' \<and> parse (issue_created_at issue) = Some ts' \<longrightarrow>
      (\<exists>brief full issue'. get_issue_messages parse issue = Inr (brief, full, issue')
         \<and> embed_description full =
              Some (join ''\<newline>'' (map strip (filter (\<lambda>l. \<not> startswith l ''<!-'') (splitlines body'))))
         \<and> embed_description brief = None
         \<and> full = brief\<lparr>embed_description := embed_description full\<rparr>))
   \<and> join ''\<newline>'' (map strip (filter (\<lambda>l. \<not> startswith l ''<!-'')
          (splitlines ''<!-- comment -->\<newline>Real text\<newline><!- inline\<newline>More'')))
        = ''Real text\<newline>More''"
proof (intro conjI impI)
  assume "pr_body pr = Some body \<and> parse (pr_created_at pr) = Some ts"
  then show "\<exists>brief full pr'. get_pr_messages parse pr = Inr (brief, full, pr')
         \<and> embed_description full =
              Some (join ''\<newline>'' (map strip (filter (\<lambda>l. \<not> startswith l ''<!-'') (splitlines body))))
         \<and> embed_description brief = None
         \<and> full = brief\<lparr>embed_description := embed_description full\<rparr>"
    by (simp add: get_pr_messages_def Let_def strip_comment_lines_def new_embed_def add_field_def)
next
  assume "issue_body issue = Some body' \<and> parse (issue_created_at issue) = Some ts'"
  then show "\<exists>brief full issue'. get_issue_messages parse issue = Inr (brief, full, issue')
         \<and> embed_description full =
              Some (join ''\<newline>'' (map strip (filter (\<lambda>l. \<not> startswith l ''<!-'') (splitlines body'))))
         \<and> embed_description brief = None
         \<and> full = brief\<lparr>embed_description := embed_description full\<rparr>"
    by (simp add: get_issue_messages_def Let_def strip_comment_lines_def new_embed_def add_field_def)
next
  show "join ''\<newline>'' (map strip (filter (\<lambda>l. \<not> startswith l ''<!-'')
          (splitlines ''<!-- comment -->\<newline>Real text\<newline><!- inline\<newline>More'')))
        = ''Real text\<newline>More''"
    using strip_comment_lines_example by (simp only: strip_comment_lines_def)
qed


text \<open>
  C8. GitHub sends \<open>null\<close> for the body of a pull request or an issue opened with no
  description. On such an event \<open>body.splitlines()\<close> raises \<open>AttributeError\<close>: neither
  formatter returns a descriptor, so the full descriptor's body is not the stripped body
  text "for every event". On the same events with a body that is text the formatters
  strip it as the claim says: the spec's example becomes \<open>Real text\nMore\<close>, a line that
  starts with blanks before \<open><!-\<close> is kept and trimmed, and the brief descriptor has no
  description.
\<close>

theorem null_body_raises:
  "pr_body (example_pr None) = None
   \<and> get_pr_messages example_parse (example_pr None) = Inl AttributeError
   \<and> issue_body (example_issue None) = None
   \<and> get_issue_messages example_parse (example_issue None) = Inl AttributeError
   \<and> map_sum id (\<lambda>(brief, full, ev). (embed_description brief, embed_description full))
        (get_pr_messages example_parse
           (example_pr (Some ''<!-- comment -->\<newline>Real text\<newline><!- inline\<newline>More'')))
      = Inr (None, Some ''Real text\<newline>More'')
   \<and> map_sum id (\<lambda>(brief, full, ev). (embed_description brief, embed_description full))
        (get_issue_messages example_parse
           (example_issue (Some ''  <!- kept  \<newline><!-- dropped -->'')))
      = Inr (None, Some ''<!- kept'')"
proof -
  have e: "strip_comment_lines ''  <!- kept  \<newline><!-- dropped -->'' = ''<!- kept''"
    by (simp add: strip_comment_lines_def splitlines_def line_break_len_def startswith_def
          strip_def ws_len_def lstrip.simps all_ws.simps)
  show ?thesis
    by (simp add: get_pr_messages_def get_issue_messages_def example_pr_def example_issue_def
          example_parse_def strip_comment_lines_example e new_embed_def add_field_def)
qed

lemma format_commits_single:
  "format_commits cfg parse brief project branch [c] acc w =
     (case format_commit cfg parse brief project branch c w of
        (Inl e, w1) \<Rightarrow> (Inl e, w1)
      | (Inr emb, w1) \<Rightarrow> (Inr (acc @ [(emb, Some (commit_id c))]), w1))"
  by (simp split: prod.splits sum.splits)

lemma drop_to_last: "xs \<noteq> [] \<Longrightarrow> drop (length xs - Suc 0) xs = [last xs]"
proof -
  assume "xs \<noteq> []"
  then have "xs = butlast xs @ [last xs]" by simp
  then have "drop (length (butlast xs)) xs = [last xs]" by (metis append_eq_conv_conj)
  then show ?thesis by simp
qed

text \<open>
  C5. The claim fails for a push of one commit with a truncation limit of 0: the count
  exceeds the limit, there is no second-to-last commit, and \<open>commits[-2]\<close> raises
  \<open>IndexError\<close>.
\<close>

theorem one_commit_over_limit_counterexample:
  "int (length (push_commits (example_push [example_commit ''a1'' (Some ''alice'') (Some ''Alice'')])))
     > commit_truncation_limit (example_config\<lparr>commit_truncation_limit := 0\<rparr>)
   \<and> get_commit_messages (example_config\<lparr>commit_truncation_limit := 0\<rparr>) example_parse
        (example_push [example_commit ''a1'' (Some ''alice'') (Some ''Alice'')]) True (example_world [])
      = (Inl IndexError, example_world [])"
  by (simp add: get_commit_messages_def example_push_def example_config_def)

text \<open>
  C5, amended. In brief mode, for a push of at least two commits whose count exceeds the
  limit, and whose last commit formats to the embed \<open>e\<close>: the result is exactly two entries,
  first the skip embed with no commit id, whose url is the compare url from the first
  hash (with \<open>^\<close>) to the second-to-last hash, then \<open>e\<close> with the hash of the last commit.
\<close>

theorem brief_truncation:
  "int (length (push_commits ev)) > commit_truncation_limit cfg \<and> 2 \<le> length (push_commits ev)
   \<and> format_commit cfg parse True (push_repo_full_name ev)
        (rpartition_tail CHR ''/'' (push_ref ev)) (last (push_commits ev)) w = (Inr e, w') \<longrightarrow>
   get_commit_messages cfg parse ev True w =
     (Inr [(skipped_embed (push_repo_full_name ev) (length (push_commits ev))
              (commit_id (hd (push_commits ev)))
              (commit_id (push_commits ev ! (length (push_commits ev) - 2))), None),
           (e, Some (commit_id (last (push_commits ev))))], w')
   \<and> embed_url (skipped_embed (push_repo_full_name ev) (length (push_commits ev))
              (commit_id (hd (push_commits ev)))
              (commit_id (push_commits ev ! (length (push_commits ev) - 2))))
      = JStr (''https://github.com/'' @ push_repo_full_name ev @ ''/compare/''
              @ commit_id (hd (push_commits ev)) @ ''^...''
              @ commit_id (push_commits ev ! (length (push_commits ev) - 2)))"
proof (intro impI, elim conjE)
  assume a: "int (length (push_commits ev)) > commit_truncation_limit cfg"
    and b: "2 \<le> length (push_commits ev)"
    and c: "format_commit cfg parse True (push_repo_full_name ev)
        (rpartition_tail CHR ''/'' (push_ref ev)) (last (push_commits ev)) w = (Inr e, w')"
  from b have ne: "push_commits ev \<noteq> []" by auto
  then have h: "push_commits ev ! 0 = hd (push_commits ev)" by (simp add: hd_conv_nth)
  have "get_commit_messages cfg parse ev True w =
     (Inr [(skipped_embed (push_repo_full_name ev) (length (push_commits ev))
              (commit_id (hd (push_commits ev)))
              (commit_id (push_commits ev ! (length (push_commits ev) - 2))), None),
           (e, Some (commit_id (last (push_commits ev))))], w')"
    using a b c ne
    by (simp add: get_commit_messages_def Let_def drop_to_last[OF ne] h format_commits_single
          del: format_commits.simps)
  then show "get_commit_messages cfg parse ev True w =
     (Inr [(skipped_embed (push_repo_full_name ev) (length (push_commits ev))
              (commit_id (hd (push_commits ev)))
              (commit_id (push_commits ev ! (length (push_commits ev) - 2))), None),
           (e, Some (commit_id (last (push_commits ev))))], w')
   \<and> embed_url (skipped_embed (push_repo_full_name ev) (length (push_commits ev))
              (commit_id (hd (push_commits ev)))
              (commit_id (push_commits ev ! (length (push_commits ev) - 2))))
      = JStr (''https://github.com/'' @ push_repo_full_name ev @ ''/compare/''
              @ commit_id (hd (push_commits ev)) @ ''^...''
              @ commit_id (push_commits ev ! (length (push_commits ev) - 2)))"
    by (simp add: skipped_embed_def new_embed_def)
qed


lemmas format_commit_eval = format_commit_def get_author_info_def cached_entry_def user_url_def
  example_commit_def example_parse_def example_world_def example_config_def emit_def Let_def
  new_embed_def add_field_def bind_def

theorem brief_truncation_witness:
  "\<exists>e w'. get_commit_messages (example_config\<lparr>commit_truncation_limit := 2\<rparr>) example_parse
       (example_push [example_commit ''c1'' (Some ''alice'') (Some ''Alice''),
                      example_commit ''c2'' (Some ''alice'') (Some ''Alice''),
                      example_commit ''c3'' None (Some ''Bob'')]) True (example_world [])
     = (Inr [(skipped_embed ''obsproject/obs-studio'' 3 ''c1'' ''c2'', None), (e, Some ''c3'')], w')
     \<and> embed_title e = ''Fix crash''
     \<and> embed_url (skipped_embed ''obsproject/obs-studio'' 3 ''c1'' ''c2'')
         = JStr ''https://github.com/obsproject/obs-studio/compare/c1^...c2''"
proof -
  let ?cfg = "example_config\<lparr>commit_truncation_limit := 2\<rparr>"
  let ?cs = "[example_commit ''c1'' (Some ''alice'') (Some ''Alice''),
              example_commit ''c2'' (Some ''alice'') (Some ''Alice''),
              example_commit ''c3'' None (Some ''Bob'')]"
  have "\<exists>e w'. format_commit ?cfg example_parse True ''obsproject/obs-studio'' ''master''
          (example_commit ''c3'' None (Some ''Bob'')) (example_world []) = (Inr e, w')
          \<and> embed_title e = ''Fix crash''"
    by (simp add: format_commit_eval)
  then obtain e w' where
    fc: "format_commit ?cfg example_parse True ''obsproject/obs-studio'' ''master''
          (example_commit ''c3'' None (Some ''Bob'')) (example_world []) = (Inr e, w')"
    and ti: "embed_title e = ''Fix crash''"
    by blast
  have h: "int (length (push_commits (example_push ?cs))) > commit_truncation_limit ?cfg
     \<and> 2 \<le> length (push_commits (example_push ?cs))
     \<and> format_commit ?cfg example_parse True (push_repo_full_name (example_push ?cs))
        (rpartition_tail CHR ''/'' (push_ref (example_push ?cs)))
        (last (push_commits (example_push ?cs))) (example_world []) = (Inr e, w')"
    using fc by (simp add: example_push_def example_config_def rpartition_tail_def)
  from brief_truncation[THEN mp, OF h] ti
  show ?thesis
    by (intro exI[of _ e] exI[of _ w']) (simp add: example_push_def example_commit_def numeral_3_eq_3)
qed

text \<open>
  When the cache has no entry and the request raises, \<open>get_author_info\<close> returns \<open>None\<close>;
  the GET has been issued and the warning logged.
\<close>

lemma get_author_info_request_raises:
  "user_cache w username = None \<Longrightarrow> request_raises (responses w) \<Longrightarrow>
   get_author_info cfg username w =
     (Inr JNull,
      (emit (LogWarning ''Fetching github userdata failed'')
         (emit (HttpGet (user_url username) None (github_api_auth cfg)) w))
       \<lparr>responses := tl (responses w)\<rparr>)"
  by (cases "responses w" rule: request_raises.cases)
     (simp_all add: get_author_info_def cached_entry_def emit_def)

text \<open>
  The fallback of \<open>format_commit\<close>. For a commit whose timestamp parses: whenever the
  lookup made for it returns a value that tests false (no profile), the author block of
  the embed is the raw author name of the payload, or \<open><No Name>\<close> when the name is absent
  or empty, with no url and no icon.
\<close>

lemma format_commit_no_profile:
  "ca_username (commit_author c) = None \<and> parse (commit_timestamp c) = Some ts
   \<and> get_author_info cfg None w = (Inr a, w') \<and> \<not> truthy a \<longrightarrow>
   (\<exists>e. format_commit cfg parse brief project branch c w = (Inr e, w')
      \<and> embed_author e =
          Some \<lparr>ab_name = JStr (case ca_name (commit_author c) of
                                   None \<Rightarrow> ''<No Name>''
                                 | Some n \<Rightarrow> if n = [] then ''<No Name>'' else n),
                ab_url = None, ab_icon_url = None\<rparr>)"
proof (intro impI, elim conjE)
  assume u: "ca_username (commit_author c) = None"
    and p: "parse (commit_timestamp c) = Some ts"
    and g: "get_author_info cfg None w = (Inr a, w')" and f: "\<not> truthy a"
  show "\<exists>e. format_commit cfg parse brief project branch c w = (Inr e, w')
      \<and> embed_author e =
          Some \<lparr>ab_name = JStr (case ca_name (commit_author c) of
                                   None \<Rightarrow> ''<No Name>''
                                 | Some n \<Rightarrow> if n = [] then ''<No Name>'' else n),
                ab_url = None, ab_icon_url = None\<rparr>"
    using u p f
    by (cases "ca_name (commit_author c)")
       (simp_all add: format_commit_def g Let_def add_field_def new_embed_def)
qed

text \<open>
  C9. For a commit whose author block has no username the lookup is not skipped:
  \<open>get_author_info(None)\<close> has no guard for \<open>None\<close> and requests
  \<open>https://api.github.com/users/None\<close>, and it never looks at the status of the answer.
  When the endpoint answers 404 with its error body, that body is cached as the profile of
  \<open>None\<close>, tests true, and \<open>author['name']\<close> raises \<open>KeyError\<close>: no descriptor is returned.
  When the endpoint answers with the profile of the account named \<open>None\<close>, the author
  block is that account's, not the raw name \<open>Bob\<close> of the payload. The raw name, and
  \<open><No Name>\<close> when there is none, are used only when the request itself fails, and the
  request has been made then too.
\<close>

theorem absent_username_lookup_not_skipped:
  "ca_username (commit_author (example_commit ''c3'' None (Some ''Bob''))) = None
   \<and> get_commit_messages example_config example_parse
        (example_push [example_commit ''c3'' None (Some ''Bob'')]) False
        (example_world [Response 404 (Some not_found_body)])
      = (Inl KeyError,
         \<lparr>responses = [], clock = 1700000000,
          trace = [HttpGet ''https://api.github.com/users/None'' None ''token abc''],
          user_cache = [None \<mapsto>
            JDict [(''message'', JStr ''Not Found''),
                   (''documentation_url'', JStr ''https://docs.github.com/rest/users/users#get-a-user''),
                   (''status'', JStr ''404''), (''_timestamp'', JNum 1700000000)]],
          state = Map.empty\<rparr>)
   \<and> map_sum id (map (\<lambda>p. embed_author (fst p)))
        (fst (get_commit_messages example_config example_parse
          (example_push [example_commit ''c3'' None (Some ''Bob'')]) False
          (example_world [Response 200 (Some none_profile)])))
      = Inr [Some \<lparr>ab_name = JStr ''None'', ab_url = Some (JStr ''https://github.com/None''),
                   ab_icon_url = Some (JStr ''https://avatars.githubusercontent.com/u/2'')\<rparr>]
   \<and> trace (snd (get_commit_messages example_config example_parse
        (example_push [example_commit ''c3'' None (Some ''Bob'')]) False
        (example_world [Response 200 (Some none_profile)])))
      = [HttpGet ''https://api.github.com/users/None'' None ''token abc'']
   \<and> trace (snd (get_commit_messages example_config example_parse
        (example_push [example_commit ''c3'' None (Some ''Bob'')]) False (example_world [NoResponse])))
      = [HttpGet ''https://api.github.com/users/None'' None ''token abc'',
         LogWarning ''Fetching github userdata failed'']
   \<and> map_sum id (map (\<lambda>p. embed_author (fst p)))
        (fst (get_commit_messages example_config example_parse
          (example_push [example_commit ''c3'' None (Some ''Bob'')]) False (example_world [NoResponse])))
      = Inr [Some \<lparr>ab_name = JStr ''Bob'', ab_url = None, ab_icon_url = None\<rparr>]
   \<and> map_sum id (map (\<lambda>p. embed_author (fst p)))
        (fst (get_commit_messages example_config example_parse
          (example_push [example_commit ''c3'' None None]) False (example_world [NoResponse])))
      = Inr [Some \<lparr>ab_name = JStr ''<No Name>'', ab_url = None, ab_icon_url = None\<rparr>]"
  by (simp add: get_commit_messages_def example_push_def format_commit_eval not_found_body_def
        none_profile_def profile_author_def)

end
